theory Spec2Isabelle
  imports Main "HOL-Library.Word"
begin

unbundle bit_operations_syntax

section \<open>The process handle of \<^verbatim>\<open>src/windows/process.c\<close>\<close>

text \<open>
  The file under verification is the Windows backend of a small process library: it
  spawns one child with redirected standard streams and controls its life cycle.
  Every routine of the backend is a short sequence of calls into the platform, so the
  embedding has two layers: a model of the platform as far as the backend sees it (a
  table of open handles, the thread's last-error register, the children created so
  far, and a log of the calls made), and the routines of \<^verbatim>\<open>process.c\<close> themselves,
  written call by call over that state.
\<close>

subsection \<open>Data\<close>

text \<open>
  A \<^verbatim>\<open>HANDLE\<close> is an opaque pointer-sized value; the code only stores it, compares
  it with \<^verbatim>\<open>NULL\<close> and hands it back to the platform. A \<^verbatim>\<open>DWORD\<close> is an unsigned
  32-bit integer.
\<close>

type_synonym HANDLE = nat
type_synonym DWORD = "32 word"

abbreviation NULL :: HANDLE where "NULL \<equiv> 0"

text \<open>Constants of \<^verbatim>\<open>windows.h\<close> that the code or the platform model mentions.\<close>

abbreviation ERROR_INVALID_HANDLE :: DWORD where "ERROR_INVALID_HANDLE \<equiv> 6"
abbreviation WAIT_OBJECT_0 :: DWORD where "WAIT_OBJECT_0 \<equiv> 0"
abbreviation WAIT_ABANDONED :: DWORD where "WAIT_ABANDONED \<equiv> 0x80"
abbreviation WAIT_TIMEOUT :: DWORD where "WAIT_TIMEOUT \<equiv> 0x102"
abbreviation WAIT_FAILED :: DWORD where "WAIT_FAILED \<equiv> 0xFFFFFFFF"
abbreviation INFINITE :: DWORD where "INFINITE \<equiv> 0xFFFFFFFF"
abbreviation CTRL_BREAK_EVENT :: DWORD where "CTRL_BREAK_EVENT \<equiv> 1"
abbreviation CREATE_NEW_PROCESS_GROUP :: DWORD where "CREATE_NEW_PROCESS_GROUP \<equiv> 0x200"

text \<open>
  Modelled from the spec: the enumeration \<^verbatim>\<open>PROCESS_ERROR\<close> is declared in
  \<^verbatim>\<open>process.h\<close>, which is not among the sources. Its members are the portable error
  kinds of the specification's error taxonomy. \<^verbatim>\<open>PROCESS_SUCCESS\<close> and
  \<^verbatim>\<open>PROCESS_WAIT_TIMEOUT\<close> are the two names \<^verbatim>\<open>process.c\<close> itself uses; the others
  are named after their kind. The unknown kind keeps the raw platform value.
\<close>

datatype PROCESS_ERROR =
    PROCESS_SUCCESS
  | PROCESS_WAIT_TIMEOUT
  | PROCESS_PIPE_CREATION_FAILED
  | PROCESS_PROCESS_CREATION_FAILED
  | PROCESS_INVALID_HANDLE
  | PROCESS_IO_FAILED
  | PROCESS_UNKNOWN_ERROR DWORD

record PROCESS_INFORMATION =
  hProcess :: HANDLE
  hThread :: HANDLE
  dwProcessId :: DWORD
  dwThreadId :: DWORD

text \<open>The \<^verbatim>\<open>struct process\<close> of the source, field by field.\<close>

record process =
  stdin :: HANDLE
  stdout :: HANDLE
  stderr :: HANDLE
  child_stdin :: HANDLE
  child_stdout :: HANDLE
  child_stderr :: HANDLE
  info :: PROCESS_INFORMATION

subsection \<open>The platform as the backend sees it\<close>

text \<open>
  What an open handle refers to: one end of a pipe (with its inheritance flag), a
  process object or a thread object (with the identifier of the process or thread).
\<close>

datatype hobject = Pipe_End bool | Process_Obj DWORD | Thread_Obj DWORD

text \<open>
  The log of calls into the platform and the C runtime, in program order. Where the
  call reports success or failure, the entry records which of the two happened; a wait
  records the raw value it returned.
\<close>

datatype os_call =
    Call_SetLastError DWORD
  | Call_GetLastError
  | Call_pipe_init bool
  | Call_CreateProcessW bool
  | Call_free
  | Call_CloseHandle HANDLE bool
  | Call_WaitForSingleObject HANDLE DWORD DWORD
  | Call_GenerateConsoleCtrlEvent DWORD DWORD bool

record os_state =
  handles :: "HANDLE \<Rightarrow> hobject option"
  next_handle :: HANDLE
  last_error :: DWORD
  exited :: "DWORD \<Rightarrow> bool"
  group_of :: "DWORD \<Rightarrow> DWORD"
  caller_group :: DWORD
  calls :: "os_call list"

text \<open>
  The platform hands out handle values that are not in use and not \<^verbatim>\<open>NULL\<close>. The
  model allocates them from a counter; a state is well formed when the counter is above
  every open handle and \<^verbatim>\<open>NULL\<close> is not open.
\<close>

definition os_wf :: "os_state \<Rightarrow> bool" where
  "os_wf os \<longleftrightarrow> 0 < next_handle os \<and> (\<forall>h. next_handle os \<le> h \<longrightarrow> handles os h = None)
     \<and> handles os NULL = None"

definition log_call :: "os_call \<Rightarrow> os_state \<Rightarrow> os_state" where
  "log_call c os = os\<lparr>calls := calls os @ [c]\<rparr>"

definition alloc_handle :: "hobject \<Rightarrow> os_state \<Rightarrow> HANDLE \<times> os_state" where
  "alloc_handle obj os =
     (next_handle os,
      os\<lparr>handles := (handles os)(next_handle os \<mapsto> obj), next_handle := Suc (next_handle os)\<rparr>)"

definition SetLastError :: "DWORD \<Rightarrow> os_state \<Rightarrow> os_state" where
  "SetLastError e os = log_call (Call_SetLastError e) (os\<lparr>last_error := e\<rparr>)"

definition GetLastError :: "os_state \<Rightarrow> DWORD \<times> os_state" where
  "GetLastError os = (last_error os, log_call Call_GetLastError os)"

text \<open>
  \<^verbatim>\<open>CloseHandle\<close>: closing an open handle removes it from the table and leaves the
  last-error register alone; closing a value that is not an open handle (\<^verbatim>\<open>NULL\<close>, or
  a handle closed before) fails with \<^verbatim>\<open>ERROR_INVALID_HANDLE\<close>. Every caller in
  \<^verbatim>\<open>process.c\<close> discards the \<^verbatim>\<open>BOOL\<close> result, so the model returns the state only and
  keeps the result in the log.
\<close>

definition CloseHandle :: "HANDLE \<Rightarrow> os_state \<Rightarrow> os_state" where
  "CloseHandle h os =
     (case handles os h of
        None \<Rightarrow> log_call (Call_CloseHandle h False) (os\<lparr>last_error := ERROR_INVALID_HANDLE\<rparr>)
      | Some obj \<Rightarrow> log_call (Call_CloseHandle h True) (os\<lparr>handles := (handles os)(h := None)\<rparr>))"

text \<open>\<^verbatim>\<open>free\<close> of the C runtime releases memory; it is logged and touches nothing else.\<close>

definition free :: "os_state \<Rightarrow> os_state" where
  "free os = log_call Call_free os"

text \<open>
  \<^verbatim>\<open>CreateProcessW\<close>: whether the platform can create the child, and under which
  identifiers, is the environment's answer. On success the platform fills the
  \<^verbatim>\<open>PROCESS_INFORMATION\<close> with two fresh handles and the identifiers and leaves the
  last-error register alone; the child leads a new process group when the creation
  flags ask for one and joins the caller's group otherwise. On failure the structure
  is left as it was and the register holds the reported code.
\<close>

datatype create_answer = Process_Created DWORD DWORD | Create_Fails DWORD

definition CreateProcessW ::
  "create_answer \<Rightarrow> DWORD \<Rightarrow> PROCESS_INFORMATION \<Rightarrow> os_state \<Rightarrow> PROCESS_INFORMATION \<times> os_state" where
  "CreateProcessW a flags pinfo os =
     (case a of
        Create_Fails code \<Rightarrow> (pinfo, log_call (Call_CreateProcessW False) (os\<lparr>last_error := code\<rparr>))
      | Process_Created pid tid \<Rightarrow>
          (let (hp, os1) = alloc_handle (Process_Obj pid) os;
               (ht, os2) = alloc_handle (Thread_Obj tid) os1;
               grp = (if flags AND CREATE_NEW_PROCESS_GROUP \<noteq> 0 then pid else caller_group os2)
           in (\<lparr>hProcess = hp, hThread = ht, dwProcessId = pid, dwThreadId = tid\<rparr>,
               log_call (Call_CreateProcessW True)
                 (os2\<lparr>exited := (exited os2)(pid := False), group_of := (group_of os2)(pid := grp)\<rparr>))))"

text \<open>
  \<^verbatim>\<open>GenerateConsoleCtrlEvent\<close>: whether the event can be delivered to the group is the
  environment's answer.
\<close>

datatype signal_answer = Signal_Sent | Signal_Fails DWORD

definition GenerateConsoleCtrlEvent ::
  "signal_answer \<Rightarrow> DWORD \<Rightarrow> DWORD \<Rightarrow> os_state \<Rightarrow> bool \<times> os_state" where
  "GenerateConsoleCtrlEvent a event grp os =
     (case a of
        Signal_Sent \<Rightarrow> (True, log_call (Call_GenerateConsoleCtrlEvent event grp True) os)
      | Signal_Fails code \<Rightarrow>
          (False, log_call (Call_GenerateConsoleCtrlEvent event grp False) (os\<lparr>last_error := code\<rparr>)))"

text \<open>
  A routine of the backend returns a value, stops at a failed \<^verbatim>\<open>assert\<close>, or never
  returns because the platform call it is blocked in never does.
\<close>

datatype 'a outcome = Returns 'a | Assertion_Failed | Never_Returns

text \<open>
  \<^verbatim>\<open>WaitForSingleObject\<close>: the platform's answer is the raw value the call returns
  (any \<^verbatim>\<open>DWORD\<close>), a failure with the code it leaves in the last-error register, or
  no return at all. A wait that reports the object signalled on a process handle
  records the child as exited.
\<close>

datatype wait_answer = Wait_Result DWORD | Wait_Fails DWORD | Wait_Blocks

definition mark_exited :: "HANDLE \<Rightarrow> os_state \<Rightarrow> os_state" where
  "mark_exited h os =
     (case handles os h of
        Some (Process_Obj pid) \<Rightarrow> os\<lparr>exited := (exited os)(pid := True)\<rparr>
      | _ \<Rightarrow> os)"

definition WaitForSingleObject ::
  "wait_answer \<Rightarrow> HANDLE \<Rightarrow> DWORD \<Rightarrow> os_state \<Rightarrow> (DWORD \<times> os_state) outcome" where
  "WaitForSingleObject a h ms os =
     (case a of
        Wait_Blocks \<Rightarrow> Never_Returns
      | Wait_Fails code \<Rightarrow>
          Returns (WAIT_FAILED,
                   log_call (Call_WaitForSingleObject h ms WAIT_FAILED) (os\<lparr>last_error := code\<rparr>))
      | Wait_Result r \<Rightarrow>
          Returns (r, log_call (Call_WaitForSingleObject h ms r)
                        (if r = WAIT_OBJECT_0 then mark_exited h os else os)))"

text \<open>
  The answer the platform documents for a wait, given whether the child exits while
  the caller waits: an invalid handle fails the wait; a child that has exited is
  signalled; a running child with a zero timeout times out at once; otherwise the wait
  ends with the child's exit or with the timeout, and with the infinite timeout it
  ends only with the child's exit.
\<close>

datatype wait_env = Child_Exits | Child_Runs_On

definition documented_wait :: "wait_env \<Rightarrow> HANDLE \<Rightarrow> DWORD \<Rightarrow> os_state \<Rightarrow> wait_answer" where
  "documented_wait env h ms os =
     (case handles os h of
        Some (Process_Obj pid) \<Rightarrow>
          (if exited os pid then Wait_Result WAIT_OBJECT_0
           else if ms = 0 then Wait_Result WAIT_TIMEOUT
           else (case env of
                   Child_Exits \<Rightarrow> Wait_Result WAIT_OBJECT_0
                 | Child_Runs_On \<Rightarrow> if ms = INFINITE then Wait_Blocks else Wait_Result WAIT_TIMEOUT))
      | _ \<Rightarrow> Wait_Fails ERROR_INVALID_HANDLE)"

subsection \<open>The routines of \<^verbatim>\<open>process.c\<close>\<close>

text \<open>
  Modelled from the spec: \<^verbatim>\<open>system_error_to_process_error\<close> is defined in a file that
  is not among the sources. The specification calls it a pure function of the platform
  error code and does not give its table, so every routine takes the translator as its
  parameter \<open>translate\<close>. The properties that need more than purity ask for it
  explicitly: the value \<open>0\<close> (no error) is translated to \<^verbatim>\<open>PROCESS_SUCCESS\<close> and
  nothing else is.
\<close>

definition translator_ok :: "(DWORD \<Rightarrow> PROCESS_ERROR) \<Rightarrow> bool" where
  "translator_ok translate \<longleftrightarrow>
     translate 0 = PROCESS_SUCCESS \<and> (\<forall>e. translate e = PROCESS_SUCCESS \<longrightarrow> e = 0)"

text \<open>
  Modelled from the spec: an instance of the translator, used where a concrete run is
  evaluated. No error is success, the invalid-handle code is the invalid-handle kind,
  and any other code is the unknown kind with the raw value as its payload.
\<close>

definition example_translate :: "DWORD \<Rightarrow> PROCESS_ERROR" where
  "example_translate e =
     (if e = 0 then PROCESS_SUCCESS
      else if e = ERROR_INVALID_HANDLE then PROCESS_INVALID_HANDLE
      else PROCESS_UNKNOWN_ERROR e)"

text \<open>
  Modelled from the spec: \<^verbatim>\<open>pipe_init\<close> is defined in a file that is not among the
  sources. The specification's duplex pipe creates one anonymous pipe and returns its
  two ends, the parent's end not inheritable and the child's end inheritable; on
  failure it reports a platform error, and the caller may be left with ends that
  were already created. The call sites in \<^verbatim>\<open>process_init\<close> fix the signature: the read
  end, the write end, and which of the two is the parent's. Whether the platform can
  create the pipe is the environment's answer: it is created, it fails before any end
  exists, or it fails after both ends exist.
\<close>

datatype pipe_answer = Pipe_Created | Pipe_Fails_Unopened DWORD | Pipe_Fails_Opened DWORD

datatype pipe_side = Read_Side | Write_Side

definition pipe_init ::
  "pipe_answer \<Rightarrow> pipe_side \<Rightarrow> HANDLE \<times> HANDLE \<Rightarrow> os_state \<Rightarrow> bool \<times> (HANDLE \<times> HANDLE) \<times> os_state" where
  "pipe_init a do_not_inherit ends os =
     (case a of
        Pipe_Fails_Unopened code \<Rightarrow>
          (False, ends, log_call (Call_pipe_init False) (os\<lparr>last_error := code\<rparr>))
      | Pipe_Fails_Opened code \<Rightarrow>
          (let (r, os1) = alloc_handle (Pipe_End True) os;
               (w, os2) = alloc_handle (Pipe_End True) os1
           in (False, (r, w), log_call (Call_pipe_init False) (os2\<lparr>last_error := code\<rparr>)))
      | Pipe_Created \<Rightarrow>
          (let (r, os1) = alloc_handle (Pipe_End (do_not_inherit \<noteq> Read_Side)) os;
               (w, os2) = alloc_handle (Pipe_End (do_not_inherit \<noteq> Write_Side)) os1
           in (True, (r, w), log_call (Call_pipe_init True) os2)))"

text \<open>
  A failing pipe creation reports a code other than \<open>0\<close>, the value that stands for
  "no error".
\<close>

fun pipe_failure_reported :: "pipe_answer \<Rightarrow> bool" where
  "pipe_failure_reported Pipe_Created = True"
| "pipe_failure_reported (Pipe_Fails_Unopened code) = (code \<noteq> 0)"
| "pipe_failure_reported (Pipe_Fails_Opened code) = (code \<noteq> 0)"

text \<open>
  \<^verbatim>\<open>process_init\<close>. The \<^verbatim>\<open>&&\<close> chain stops at the first pipe that fails; the error
  is read from the last-error register once, after the chain. \<^verbatim>\<open>assert(process)\<close>
  holds by construction: the model passes the structure itself.
\<close>

definition process_init ::
  "(DWORD \<Rightarrow> PROCESS_ERROR) \<Rightarrow> pipe_answer \<Rightarrow> pipe_answer \<Rightarrow> pipe_answer \<Rightarrow> process \<Rightarrow> os_state
     \<Rightarrow> PROCESS_ERROR \<times> process \<times> os_state" where
  "process_init translate a1 a2 a3 p os =
     (let p0 = p\<lparr>stdin := NULL, stdout := NULL, stderr := NULL,
                 child_stdin := NULL, child_stdout := NULL, child_stderr := NULL,
                 info := \<lparr>hProcess = NULL, hThread = NULL, dwProcessId = 0, dwThreadId = 0\<rparr>\<rparr>;
          os0 = SetLastError 0 os;
          (ok1, (r1, w1), os1) = pipe_init a1 Write_Side (child_stdin p0, stdin p0) os0;
          p1 = p0\<lparr>child_stdin := r1, stdin := w1\<rparr>;
          (p3, os3) =
            (if ok1 then
               (let (ok2, (r2, w2), os2) = pipe_init a2 Read_Side (stdout p1, child_stdout p1) os1;
                    p2 = p1\<lparr>stdout := r2, child_stdout := w2\<rparr>
                in if ok2 then
                     (let (ok3, (r3, w3), os3) =
                            pipe_init a3 Read_Side (stderr p2, child_stderr p2) os2
                      in (p2\<lparr>stderr := r3, child_stderr := w3\<rparr>, os3))
                   else (p2, os2))
             else (p1, os1));
          (e, os4) = GetLastError os3
      in (translate e, p3, os4))"

text \<open>
  The assertions at the head of \<^verbatim>\<open>process_start\<close>. \<open>argv\<close> is the array the pointer
  refers to, cell by cell, a \<^verbatim>\<open>NULL\<close> cell being \<open>None\<close>.
\<close>

definition start_asserts :: "int \<Rightarrow> (nat \<Rightarrow> string option) \<Rightarrow> process \<Rightarrow> bool" where
  "start_asserts argc argv p \<longleftrightarrow>
     0 < argc \<and> argv (nat argc) \<noteq> None \<and>
     stdin p \<noteq> NULL \<and> stdout p \<noteq> NULL \<and> stderr p \<noteq> NULL \<and>
     child_stdin p \<noteq> NULL \<and> child_stdout p \<noteq> NULL \<and> child_stderr p \<noteq> NULL \<and>
     hThread (info p) = NULL \<and> hProcess (info p) = NULL \<and>
     list_all (\<lambda>i. argv i \<noteq> None) [0..<nat argc]"

definition CREATION_FLAGS :: DWORD where
  "CREATION_FLAGS = CREATE_NEW_PROCESS_GROUP"

text \<open>
  \<^verbatim>\<open>process_start\<close>. \<open>ndebug\<close> says whether the file was compiled with \<^verbatim>\<open>NDEBUG\<close>, which
  removes every \<^verbatim>\<open>assert\<close>. Joining and converting the command line happen before the
  register is cleared and are not platform calls of their own; what the platform makes
  of the command line is the answer \<open>a\<close>. The second read of the register happens only
  when the first translated to success.
\<close>

definition process_start ::
  "bool \<Rightarrow> (DWORD \<Rightarrow> PROCESS_ERROR) \<Rightarrow> create_answer \<Rightarrow> process \<Rightarrow> int \<Rightarrow> (nat \<Rightarrow> string option)
     \<Rightarrow> os_state \<Rightarrow> (PROCESS_ERROR \<times> process \<times> os_state) outcome" where
  "process_start ndebug translate a p argc argv os =
     (if \<not> ndebug \<and> \<not> start_asserts argc argv p then Assertion_Failed
      else
        (let os1 = SetLastError 0 os;
             (pinfo, os2) = CreateProcessW a CREATION_FLAGS (info p) os1;
             p' = p\<lparr>info := pinfo\<rparr>;
             os3 = free os2;
             os4 = free os3;
             (e, os5) = GetLastError os4;
             error = translate e;
             os6 = CloseHandle (child_stdin p') os5;
             os7 = CloseHandle (child_stdout p') os6;
             os8 = CloseHandle (child_stderr p') os7;
             os9 = CloseHandle (hThread (info p')) os8
         in if error \<noteq> PROCESS_SUCCESS then Returns (error, p', os9)
            else (let (e', os10) = GetLastError os9 in Returns (translate e', p', os10))))"

text \<open>\<^verbatim>\<open>process_wait\<close>: the \<^verbatim>\<open>switch\<close> on the raw wait result, with its default.\<close>

definition process_wait ::
  "bool \<Rightarrow> (DWORD \<Rightarrow> PROCESS_ERROR) \<Rightarrow> wait_answer \<Rightarrow> process \<Rightarrow> DWORD \<Rightarrow> os_state
     \<Rightarrow> (PROCESS_ERROR \<times> os_state) outcome" where
  "process_wait ndebug translate a p milliseconds os =
     (if \<not> ndebug \<and> hProcess (info p) = NULL then Assertion_Failed
      else
        (case WaitForSingleObject a (hProcess (info p)) milliseconds (SetLastError 0 os) of
           Returns (wait_result, os1) \<Rightarrow>
             if wait_result = WAIT_TIMEOUT then Returns (PROCESS_WAIT_TIMEOUT, os1)
             else if wait_result = WAIT_FAILED then
               (let (e, os2) = GetLastError os1 in Returns (translate e, os2))
             else Returns (PROCESS_SUCCESS, os1)
         | Assertion_Failed \<Rightarrow> Assertion_Failed
         | Never_Returns \<Rightarrow> Never_Returns))"

text \<open>
  \<^verbatim>\<open>process_terminate\<close>: the break event goes to the group whose identifier is the
  child's process identifier; the wait follows only when the event was sent.
\<close>

definition process_terminate ::
  "bool \<Rightarrow> (DWORD \<Rightarrow> PROCESS_ERROR) \<Rightarrow> signal_answer \<Rightarrow> wait_answer \<Rightarrow> process \<Rightarrow> DWORD \<Rightarrow> os_state
     \<Rightarrow> (PROCESS_ERROR \<times> os_state) outcome" where
  "process_terminate ndebug translate sa wa p milliseconds os =
     (if \<not> ndebug \<and> dwProcessId (info p) = 0 then Assertion_Failed
      else
        (let (sent, os1) =
               GenerateConsoleCtrlEvent sa CTRL_BREAK_EVENT (dwProcessId (info p)) (SetLastError 0 os)
         in if \<not> sent then (let (e, os2) = GetLastError os1 in Returns (translate e, os2))
            else process_wait ndebug translate wa p milliseconds os1))"

text \<open>
  \<^verbatim>\<open>process_free\<close>: four guarded \<^verbatim>\<open>CloseHandle\<close> calls, then one read of the
  register. The structure is not written to.
\<close>

definition process_free ::
  "(DWORD \<Rightarrow> PROCESS_ERROR) \<Rightarrow> process \<Rightarrow> os_state \<Rightarrow> PROCESS_ERROR \<times> os_state" where
  "process_free translate p os =
     (let os0 = SetLastError 0 os;
          os1 = (if stdin p \<noteq> NULL then CloseHandle (stdin p) os0 else os0);
          os2 = (if stdout p \<noteq> NULL then CloseHandle (stdout p) os1 else os1);
          os3 = (if stderr p \<noteq> NULL then CloseHandle (stderr p) os2 else os2);
          os4 = (if hProcess (info p) \<noteq> NULL then CloseHandle (hProcess (info p)) os3 else os3);
          (e, os5) = GetLastError os4
      in (translate e, os5))"

text \<open>
  A started handle, as \<^verbatim>\<open>process_start\<close> leaves it on success: the structure holds a
  process handle and a process identifier, the handle is open and refers to that
  process, and the process leads its own group.
\<close>

definition started :: "process \<Rightarrow> os_state \<Rightarrow> bool" where
  "started p os \<longleftrightarrow>
     hProcess (info p) \<noteq> NULL \<and> dwProcessId (info p) \<noteq> 0 \<and>
     handles os (hProcess (info p)) = Some (Process_Obj (dwProcessId (info p))) \<and>
     group_of os (dwProcessId (info p)) = dwProcessId (info p)"

text \<open>The raw value \<^verbatim>\<open>WaitForSingleObject\<close> returns under an answer, if it returns.\<close>

fun wait_raw :: "wait_answer \<Rightarrow> DWORD option" where
  "wait_raw (Wait_Result r) = Some r"
| "wait_raw (Wait_Fails code) = Some WAIT_FAILED"
| "wait_raw Wait_Blocks = None"

subsection \<open>Reading the log\<close>

text \<open>The calls a routine added to the log, given the state before and after it.\<close>

definition new_calls :: "os_state \<Rightarrow> os_state \<Rightarrow> os_call list" where
  "new_calls os os' = drop (length (calls os)) (calls os')"

text \<open>The handles passed to \<^verbatim>\<open>CloseHandle\<close>, and those for which the call failed.\<close>

fun closes :: "os_call list \<Rightarrow> HANDLE list" where
  "closes [] = []"
| "closes (Call_CloseHandle h ok # cs) = h # closes cs"
| "closes (c # cs) = closes cs"

fun failed_closes :: "os_call list \<Rightarrow> HANDLE list" where
  "failed_closes [] = []"
| "failed_closes (Call_CloseHandle h ok # cs) = (if ok then failed_closes cs else h # failed_closes cs)"
| "failed_closes (c # cs) = failed_closes cs"

text \<open>A run of \<^verbatim>\<open>CloseHandle\<close> calls, one per handle, in order.\<close>

definition close_all :: "HANDLE list \<Rightarrow> os_state \<Rightarrow> os_state" where
  "close_all hs os = fold CloseHandle hs os"

text \<open>The handles \<^verbatim>\<open>process_free\<close> passes to \<^verbatim>\<open>CloseHandle\<close>, in order.\<close>

definition free_closes :: "process \<Rightarrow> HANDLE list" where
  "free_closes p = filter (\<lambda>h. h \<noteq> NULL) [stdin p, stdout p, stderr p, hProcess (info p)]"

text \<open>Whether a log entry is a call that reported failure.\<close>

fun call_failed :: "os_call \<Rightarrow> bool" where
  "call_failed (Call_pipe_init ok) = (\<not> ok)"
| "call_failed (Call_CreateProcessW ok) = (\<not> ok)"
| "call_failed (Call_CloseHandle h ok) = (\<not> ok)"
| "call_failed (Call_WaitForSingleObject h ms r) = (r = WAIT_FAILED)"
| "call_failed (Call_GenerateConsoleCtrlEvent e g ok) = (\<not> ok)"
| "call_failed c = False"

text \<open>
  Every call that reported failure is followed at once by the read of the last-error
  register.
\<close>

fun observed_at_once :: "os_call list \<Rightarrow> bool" where
  "observed_at_once [] = True"
| "observed_at_once [c] = (\<not> call_failed c)"
| "observed_at_once (c # d # cs) =
     ((call_failed c \<longrightarrow> d = Call_GetLastError) \<and> observed_at_once (d # cs))"

subsection \<open>A concrete run\<close>

text \<open>
  A platform state with no open handle, an untouched structure, and an argument vector
  of two strings followed by \<^verbatim>\<open>NULL\<close> cells. \<open>example_p\<close> and \<open>example_os\<close> are the
  structure and the platform state after \<^verbatim>\<open>process_init\<close> with three pipes created;
  \<open>example_started_p\<close> and \<open>example_started_os\<close> are what \<^verbatim>\<open>process_start\<close> makes of
  them when the platform creates process 40 with main thread 41;
  \<open>example_unstarted_os\<close> is the platform state when the creation fails with code 2
  instead, and \<open>example_restarted_p\<close> and \<open>example_restarted_os\<close> are what a second
  \<^verbatim>\<open>process_start\<close>, compiled without assertions, makes of the started handle when the
  platform creates process 50 with main thread 51. \<open>example_freed_os\<close> is the platform
  state after \<^verbatim>\<open>process_free\<close> on the initialised, never started handle, and
  \<open>example_freed_twice_os\<close> the state after a second \<^verbatim>\<open>process_free\<close> on it.
\<close>

definition example_boot :: os_state where
  "example_boot =
     \<lparr>handles = Map.empty, next_handle = 1, last_error = 0, exited = (\<lambda>pid. False),
      group_of = (\<lambda>pid. 0), caller_group = 7, calls = []\<rparr>"

definition example_blank :: process where
  "example_blank =
     \<lparr>stdin = NULL, stdout = NULL, stderr = NULL,
      child_stdin = NULL, child_stdout = NULL, child_stderr = NULL,
      info = \<lparr>hProcess = NULL, hThread = NULL, dwProcessId = 0, dwThreadId = 0\<rparr>\<rparr>"

definition example_argv :: "nat \<Rightarrow> string option" where
  "example_argv i = (if i = 0 then Some ''child.exe'' else if i = 1 then Some ''-v'' else None)"

definition example_p :: process where
  "example_p =
     \<lparr>stdin = 2, stdout = 3, stderr = 5, child_stdin = 1, child_stdout = 4, child_stderr = 6,
      info = \<lparr>hProcess = NULL, hThread = NULL, dwProcessId = 0, dwThreadId = 0\<rparr>\<rparr>"

definition example_os :: os_state where
  "example_os =
     \<lparr>handles = [1 \<mapsto> Pipe_End True, 2 \<mapsto> Pipe_End False, 3 \<mapsto> Pipe_End False,
                 4 \<mapsto> Pipe_End True, 5 \<mapsto> Pipe_End False, 6 \<mapsto> Pipe_End True],
      next_handle = 7, last_error = 0, exited = (\<lambda>pid. False), group_of = (\<lambda>pid. 0),
      caller_group = 7,
      calls = [Call_SetLastError 0, Call_pipe_init True, Call_pipe_init True,
               Call_pipe_init True, Call_GetLastError]\<rparr>"

definition example_started_p :: process where
  "example_started_p =
     \<lparr>stdin = 2, stdout = 3, stderr = 5, child_stdin = 1, child_stdout = 4, child_stderr = 6,
      info = \<lparr>hProcess = 7, hThread = 8, dwProcessId = 40, dwThreadId = 41\<rparr>\<rparr>"

definition example_started_os :: os_state where
  "example_started_os =
     \<lparr>handles = [2 \<mapsto> Pipe_End False, 3 \<mapsto> Pipe_End False, 5 \<mapsto> Pipe_End False,
                 7 \<mapsto> Process_Obj 40],
      next_handle = 9, last_error = 0, exited = (\<lambda>pid. False),
      group_of = (\<lambda>pid. if pid = 40 then 40 else 0), caller_group = 7,
      calls = [Call_SetLastError 0, Call_pipe_init True, Call_pipe_init True,
               Call_pipe_init True, Call_GetLastError,
               Call_SetLastError 0, Call_CreateProcessW True, Call_free, Call_free,
               Call_GetLastError, Call_CloseHandle 1 True, Call_CloseHandle 4 True,
               Call_CloseHandle 6 True, Call_CloseHandle 8 True, Call_GetLastError]\<rparr>"

definition example_unstarted_os :: os_state where
  "example_unstarted_os =
     \<lparr>handles = [2 \<mapsto> Pipe_End False, 3 \<mapsto> Pipe_End False, 5 \<mapsto> Pipe_End False],
      next_handle = 7, last_error = ERROR_INVALID_HANDLE, exited = (\<lambda>pid. False),
      group_of = (\<lambda>pid. 0), caller_group = 7,
      calls = [Call_SetLastError 0, Call_pipe_init True, Call_pipe_init True,
               Call_pipe_init True, Call_GetLastError,
               Call_SetLastError 0, Call_CreateProcessW False, Call_free, Call_free,
               Call_GetLastError, Call_CloseHandle 1 True, Call_CloseHandle 4 True,
               Call_CloseHandle 6 True, Call_CloseHandle NULL False]\<rparr>"

definition example_restarted_p :: process where
  "example_restarted_p =
     \<lparr>stdin = 2, stdout = 3, stderr = 5, child_stdin = 1, child_stdout = 4, child_stderr = 6,
      info = \<lparr>hProcess = 9, hThread = 10, dwProcessId = 50, dwThreadId = 51\<rparr>\<rparr>"

definition example_restarted_os :: os_state where
  "example_restarted_os =
     \<lparr>handles = [2 \<mapsto> Pipe_End False, 3 \<mapsto> Pipe_End False, 5 \<mapsto> Pipe_End False,
                 7 \<mapsto> Process_Obj 40, 9 \<mapsto> Process_Obj 50],
      next_handle = 11, last_error = ERROR_INVALID_HANDLE, exited = (\<lambda>pid. False),
      group_of = (\<lambda>pid. if pid = 50 then 50 else if pid = 40 then 40 else 0),
      caller_group = 7,
      calls = [Call_SetLastError 0, Call_pipe_init True, Call_pipe_init True,
               Call_pipe_init True, Call_GetLastError,
               Call_SetLastError 0, Call_CreateProcessW True, Call_free, Call_free,
               Call_GetLastError, Call_CloseHandle 1 True, Call_CloseHandle 4 True,
               Call_CloseHandle 6 True, Call_CloseHandle 8 True, Call_GetLastError,
               Call_SetLastError 0, Call_CreateProcessW True, Call_free, Call_free,
               Call_GetLastError, Call_CloseHandle 1 False, Call_CloseHandle 4 False,
               Call_CloseHandle 6 False, Call_CloseHandle 10 True, Call_GetLastError]\<rparr>"

definition example_freed_os :: os_state where
  "example_freed_os =
     \<lparr>handles = [1 \<mapsto> Pipe_End True, 4 \<mapsto> Pipe_End True, 6 \<mapsto> Pipe_End True],
      next_handle = 7, last_error = 0, exited = (\<lambda>pid. False), group_of = (\<lambda>pid. 0),
      caller_group = 7,
      calls = [Call_SetLastError 0, Call_pipe_init True, Call_pipe_init True,
               Call_pipe_init True, Call_GetLastError,
               Call_SetLastError 0, Call_CloseHandle 2 True, Call_CloseHandle 3 True,
               Call_CloseHandle 5 True, Call_GetLastError]\<rparr>"

definition example_freed_twice_os :: os_state where
  "example_freed_twice_os =
     \<lparr>handles = [1 \<mapsto> Pipe_End True, 4 \<mapsto> Pipe_End True, 6 \<mapsto> Pipe_End True],
      next_handle = 7, last_error = ERROR_INVALID_HANDLE, exited = (\<lambda>pid. False),
      group_of = (\<lambda>pid. 0), caller_group = 7,
      calls = [Call_SetLastError 0, Call_pipe_init True, Call_pipe_init True,
               Call_pipe_init True, Call_GetLastError,
               Call_SetLastError 0, Call_CloseHandle 2 True, Call_CloseHandle 3 True,
               Call_CloseHandle 5 True, Call_GetLastError,
               Call_SetLastError 0, Call_CloseHandle 2 False, Call_CloseHandle 3 False,
               Call_CloseHandle 5 False, Call_GetLastError]\<rparr>"

section \<open>Properties\<close>

subsection \<open>Platform calls, one at a time\<close>

lemmas platform_defs = log_call_def alloc_handle_def SetLastError_def GetLastError_def
  CloseHandle_def free_def CreateProcessW_def

lemma log_call_facts [simp]:
  "handles (log_call c os) = handles os"
  "last_error (log_call c os) = last_error os"
  "calls (log_call c os) = calls os @ [c]"
  "next_handle (log_call c os) = next_handle os"
  "exited (log_call c os) = exited os"
  "group_of (log_call c os) = group_of os"
  by (simp_all add: log_call_def)

lemma SetLastError_facts [simp]:
  "handles (SetLastError e os) = handles os"
  "last_error (SetLastError e os) = e"
  "calls (SetLastError e os) = calls os @ [Call_SetLastError e]"
  "next_handle (SetLastError e os) = next_handle os"
  "exited (SetLastError e os) = exited os"
  "group_of (SetLastError e os) = group_of os"
  by (simp_all add: SetLastError_def)

lemma free_facts [simp]:
  "handles (free os) = handles os"
  "last_error (free os) = last_error os"
  "calls (free os) = calls os @ [Call_free]"
  "next_handle (free os) = next_handle os"
  "exited (free os) = exited os"
  "group_of (free os) = group_of os"
  by (simp_all add: free_def)

lemma mark_exited_facts [simp]:
  "calls (mark_exited h os) = calls os"
  "handles (mark_exited h os) = handles os"
  "last_error (mark_exited h os) = last_error os"
  by (simp_all add: mark_exited_def split: option.splits hobject.splits)

lemma last_error_CloseHandle:
  "last_error (CloseHandle h os) =
     (if handles os h = None then ERROR_INVALID_HANDLE else last_error os)"
  by (simp add: CloseHandle_def split: option.splits)

lemma calls_CloseHandle:
  "calls (CloseHandle h os) = calls os @ [Call_CloseHandle h (handles os h \<noteq> None)]"
  by (simp add: CloseHandle_def split: option.splits)

lemma handles_CloseHandle:
  "handles (CloseHandle h os) = (handles os)(h := None)"
  by (auto simp: CloseHandle_def fun_eq_iff split: option.splits)

lemma CreateProcessW_fails:
  "fst (CreateProcessW (Create_Fails code) flags pinfo os) = pinfo"
  "last_error (snd (CreateProcessW (Create_Fails code) flags pinfo os)) = code"
  "calls (snd (CreateProcessW (Create_Fails code) flags pinfo os)) =
     calls os @ [Call_CreateProcessW False]"
  "handles (snd (CreateProcessW (Create_Fails code) flags pinfo os)) = handles os"
  by (simp_all add: CreateProcessW_def)

lemma CreateProcessW_created:
  "fst (CreateProcessW (Process_Created pid tid) flags pinfo os) =
     \<lparr>hProcess = next_handle os, hThread = Suc (next_handle os),
      dwProcessId = pid, dwThreadId = tid\<rparr>"
  "last_error (snd (CreateProcessW (Process_Created pid tid) flags pinfo os)) = last_error os"
  "calls (snd (CreateProcessW (Process_Created pid tid) flags pinfo os)) =
     calls os @ [Call_CreateProcessW True]"
  "handles (snd (CreateProcessW (Process_Created pid tid) flags pinfo os)) =
     (handles os)(next_handle os \<mapsto> Process_Obj pid, Suc (next_handle os) \<mapsto> Thread_Obj tid)"
  by (simp_all add: CreateProcessW_def alloc_handle_def Let_def)

lemma calls_CreateProcessW:
  "calls (snd (CreateProcessW a flags pinfo os)) =
     calls os @ [Call_CreateProcessW
                   (case a of Process_Created pid tid \<Rightarrow> True | Create_Fails code \<Rightarrow> False)]"
  by (cases a) (simp_all add: CreateProcessW_fails CreateProcessW_created)

lemma closes_append [simp]: "closes (xs @ ys) = closes xs @ closes ys"
  by (induction xs rule: closes.induct) simp_all

lemma failed_closes_append [simp]: "failed_closes (xs @ ys) = failed_closes xs @ failed_closes ys"
  by (induction xs rule: failed_closes.induct) simp_all

lemma new_calls_eq: "calls os' = calls os @ cs \<Longrightarrow> new_calls os os' = cs"
  by (simp add: new_calls_def)

subsection \<open>A run of closes\<close>

lemma close_all_Nil [simp]: "close_all [] os = os"
  by (simp add: close_all_def)

lemma close_all_Cons: "close_all (h # hs) os = close_all hs (CloseHandle h os)"
  by (simp add: close_all_def)

text \<open>
  What a run of closes adds to the log and leaves in the register: one entry per
  handle, no read of the register, and the invalid-handle code as soon as one close
  failed.
\<close>

lemma close_all_log:
  "\<exists>cs. calls (close_all hs os) = calls os @ cs \<and> closes cs = hs \<and>
        Call_GetLastError \<notin> set cs \<and>
        last_error (close_all hs os) =
          (if failed_closes cs = [] then last_error os else ERROR_INVALID_HANDLE)"
proof (induction hs arbitrary: os)
  case Nil
  show ?case by simp
next
  case (Cons h hs)
  from Cons.IH [of "CloseHandle h os"]
  obtain cs where cs: "calls (close_all hs (CloseHandle h os)) = calls (CloseHandle h os) @ cs"
      "closes cs = hs" "Call_GetLastError \<notin> set cs"
      "last_error (close_all hs (CloseHandle h os)) =
          (if failed_closes cs = [] then last_error (CloseHandle h os) else ERROR_INVALID_HANDLE)"
    by blast
  show ?case
    apply (rule exI [of _ "Call_CloseHandle h (handles os h \<noteq> None) # cs"])
    using cs by (simp add: close_all_Cons last_error_CloseHandle calls_CloseHandle)
qed

lemma handles_close_all:
  "handles (close_all hs os) k = (if k \<in> set hs then None else handles os k)"
proof (induction hs arbitrary: os)
  case Nil
  show ?case by simp
next
  case (Cons h hs)
  show ?case
    by (simp add: close_all_Cons Cons.IH handles_CloseHandle)
qed

subsection \<open>The concrete run is a run\<close>

lemma example_os_wf: "os_wf example_boot"
  by (simp add: os_wf_def example_boot_def)

lemma example_translate_ok: "translator_ok example_translate"
  by (simp add: translator_ok_def example_translate_def)

lemma example_ready_eq:
  "process_init example_translate Pipe_Created Pipe_Created Pipe_Created example_blank example_boot
     = (PROCESS_SUCCESS, example_p, example_os)"
  by (simp add: process_init_def pipe_init_def platform_defs Let_def
        example_boot_def example_blank_def example_p_def example_os_def
        example_translate_def numeral_eq_Suc)

lemma example_started_eq:
  "process_start False example_translate (Process_Created 40 41) example_p 1 example_argv example_os
     = Returns (PROCESS_SUCCESS, example_started_p, example_started_os)"
  by (simp add: process_start_def start_asserts_def example_argv_def Let_def platform_defs
        CREATION_FLAGS_def example_p_def example_os_def example_started_p_def
        example_started_os_def example_translate_def fun_eq_iff)

lemma example_unstarted_eq:
  "process_start False example_translate (Create_Fails 2) example_p 1 example_argv example_os
     = Returns (PROCESS_UNKNOWN_ERROR 2, example_p, example_unstarted_os)"
  by (simp add: process_start_def start_asserts_def example_argv_def Let_def platform_defs
        CREATION_FLAGS_def example_p_def example_os_def example_unstarted_os_def
        example_translate_def fun_eq_iff)

lemma example_restarted_eq:
  "process_start True example_translate (Process_Created 50 51) example_started_p 1 example_argv
     example_started_os
     = Returns (PROCESS_INVALID_HANDLE, example_restarted_p, example_restarted_os)"
  by (simp add: process_start_def Let_def platform_defs CREATION_FLAGS_def
        example_started_p_def example_started_os_def example_restarted_p_def
        example_restarted_os_def example_translate_def fun_eq_iff)

lemma example_freed_eq:
  "process_free example_translate example_p example_os = (PROCESS_SUCCESS, example_freed_os)"
  by (simp add: process_free_def Let_def platform_defs example_p_def example_os_def
        example_freed_os_def example_translate_def fun_eq_iff)

lemma example_freed_twice_eq:
  "process_free example_translate example_p example_freed_os
     = (PROCESS_INVALID_HANDLE, example_freed_twice_os)"
  by (simp add: process_free_def Let_def platform_defs example_p_def example_freed_os_def
        example_freed_twice_os_def example_translate_def fun_eq_iff)

subsection \<open>Initialisation\<close>

lemma process_init_all_created:
  assumes "translator_ok translate"
    and "pipe_failure_reported a1" and "pipe_failure_reported a2" and "pipe_failure_reported a3"
    and "fst (process_init translate a1 a2 a3 p os) = PROCESS_SUCCESS"
  shows "a1 = Pipe_Created \<and> a2 = Pipe_Created \<and> a3 = Pipe_Created"
  using assms
  by (cases a1; cases a2; cases a3)
     (auto simp: process_init_def pipe_init_def platform_defs Let_def translator_ok_def)

lemma process_init_created:
  "process_init translate Pipe_Created Pipe_Created Pipe_Created p os =
     (translate 0,
      p\<lparr>stdin := Suc (next_handle os), stdout := next_handle os + 2, stderr := next_handle os + 4,
        child_stdin := next_handle os, child_stdout := next_handle os + 3,
        child_stderr := next_handle os + 5,
        info := \<lparr>hProcess = NULL, hThread = NULL, dwProcessId = 0, dwThreadId = 0\<rparr>\<rparr>,
      os\<lparr>handles := (handles os)
           (next_handle os \<mapsto> Pipe_End True, Suc (next_handle os) \<mapsto> Pipe_End False,
            next_handle os + 2 \<mapsto> Pipe_End False, next_handle os + 3 \<mapsto> Pipe_End True,
            next_handle os + 4 \<mapsto> Pipe_End False, next_handle os + 5 \<mapsto> Pipe_End True),
         next_handle := next_handle os + 6, last_error := 0,
         calls := calls os @ [Call_SetLastError 0, Call_pipe_init True, Call_pipe_init True,
                              Call_pipe_init True, Call_GetLastError]\<rparr>)"
  by (simp add: process_init_def pipe_init_def platform_defs Let_def numeral_eq_Suc)

text \<open>
  Claim C1. Whenever \<^verbatim>\<open>process_init\<close> returns \<^verbatim>\<open>PROCESS_SUCCESS\<close>, the six pipe ends
  stored in the structure are pairwise distinct, none is \<^verbatim>\<open>NULL\<close>, and each is a pipe
  end that was not open before the call and is open after it: the three parent ends not
  inheritable, the three child ends inheritable. The platform is assumed to report a
  failed pipe creation with a code other than \<open>0\<close>, and the translator to map \<open>0\<close>, and
  only \<open>0\<close>, to success.
\<close>

theorem process_init_success_six_endpoints:
  assumes wf: "os_wf os" and tr: "translator_ok translate"
    and r1: "pipe_failure_reported a1" and r2: "pipe_failure_reported a2"
    and r3: "pipe_failure_reported a3"
    and ok: "process_init translate a1 a2 a3 p os = (PROCESS_SUCCESS, p', os')"
  shows "distinct [stdin p', stdout p', stderr p', child_stdin p', child_stdout p', child_stderr p']
       \<and> list_all (\<lambda>h. h \<noteq> NULL \<and> handles os h = None \<and> handles os' h = Some (Pipe_End False))
            [stdin p', stdout p', stderr p']
       \<and> list_all (\<lambda>h. h \<noteq> NULL \<and> handles os h = None \<and> handles os' h = Some (Pipe_End True))
            [child_stdin p', child_stdout p', child_stderr p']"
proof -
  from ok have "fst (process_init translate a1 a2 a3 p os) = PROCESS_SUCCESS" by simp
  with tr r1 r2 r3 have all: "a1 = Pipe_Created \<and> a2 = Pipe_Created \<and> a3 = Pipe_Created"
    by (rule process_init_all_created)
  from wf have pos: "0 < next_handle os"
    and fresh: "\<And>h. next_handle os \<le> h \<Longrightarrow> handles os h = None"
    by (simp_all add: os_wf_def)
  from ok all
  have p': "p' = fst (snd (process_init translate Pipe_Created Pipe_Created Pipe_Created p os))"
    and os': "os' = snd (snd (process_init translate Pipe_Created Pipe_Created Pipe_Created p os))"
    by simp_all
  show ?thesis
    unfolding p' os' process_init_created
    using pos by (simp add: fresh)
qed

theorem process_init_success_six_endpoints_witness:
  "os_wf example_boot \<and> translator_ok example_translate \<and>
   pipe_failure_reported Pipe_Created \<and>
   process_init example_translate Pipe_Created Pipe_Created Pipe_Created example_blank example_boot
     = (PROCESS_SUCCESS, example_p, example_os) \<and>
   distinct [stdin example_p, stdout example_p, stderr example_p,
             child_stdin example_p, child_stdout example_p, child_stderr example_p] \<and>
   list_all (\<lambda>h. h \<noteq> NULL \<and> handles example_boot h = None \<and>
                 handles example_os h = Some (Pipe_End False))
     [stdin example_p, stdout example_p, stderr example_p] \<and>
   list_all (\<lambda>h. h \<noteq> NULL \<and> handles example_boot h = None \<and>
                 handles example_os h = Some (Pipe_End True))
     [child_stdin example_p, child_stdout example_p, child_stderr example_p]"
proof -
  have rep: "pipe_failure_reported Pipe_Created"
    by simp
  from process_init_success_six_endpoints
         [OF example_os_wf example_translate_ok rep rep rep example_ready_eq]
       example_os_wf example_translate_ok example_ready_eq
  show ?thesis by simp
qed

subsection \<open>Starting the child\<close>

text \<open>
  \<^verbatim>\<open>process_start\<close> in one piece: the creation call, the two \<^verbatim>\<open>free\<close> calls, the first
  read of the register, the run of four closes, and the second read when the first
  translated to success.
\<close>

lemma process_start_unfold:
  "process_start ndebug translate a p argc argv os =
     (if \<not> ndebug \<and> \<not> start_asserts argc argv p then Assertion_Failed
      else
        (let pinfo = fst (CreateProcessW a CREATION_FLAGS (info p) (SetLastError 0 os));
             os2 = snd (CreateProcessW a CREATION_FLAGS (info p) (SetLastError 0 os));
             os5 = log_call Call_GetLastError (free (free os2));
             os9 = close_all [child_stdin p, child_stdout p, child_stderr p, hThread pinfo] os5
         in if translate (last_error os2) \<noteq> PROCESS_SUCCESS
            then Returns (translate (last_error os2), p\<lparr>info := pinfo\<rparr>, os9)
            else Returns (translate (last_error os9), p\<lparr>info := pinfo\<rparr>,
                          log_call Call_GetLastError os9)))"
  by (simp add: process_start_def Let_def GetLastError_def free_def close_all_def
        split: prod.splits)

text \<open>
  Claim C4. Whenever \<^verbatim>\<open>process_start\<close> returns, with success or with an error, none
  of the three child-side pipe ends of the structure is an open handle any more: the
  routine has passed each of them to \<^verbatim>\<open>CloseHandle\<close>, in order, followed by the thread
  handle. The fields themselves keep their values.
\<close>

theorem process_start_closes_child_ends:
  assumes "process_start ndebug translate a p argc argv os = Returns (e, p', os')"
  shows "handles os' (child_stdin p) = None \<and> handles os' (child_stdout p) = None \<and>
         handles os' (child_stderr p) = None \<and>
         child_stdin p' = child_stdin p \<and> child_stdout p' = child_stdout p \<and>
         child_stderr p' = child_stderr p \<and>
         closes (new_calls os os') =
           [child_stdin p, child_stdout p, child_stderr p, hThread (info p')]"
proof -
  define pinfo where "pinfo = fst (CreateProcessW a CREATION_FLAGS (info p) (SetLastError 0 os))"
  define os5 where "os5 = log_call Call_GetLastError
     (free (free (snd (CreateProcessW a CREATION_FLAGS (info p) (SetLastError 0 os)))))"
  define hs where "hs = [child_stdin p, child_stdout p, child_stderr p, hThread pinfo]"
  define b where
    "b = (case a of Process_Created pid tid \<Rightarrow> True | Create_Fails code \<Rightarrow> False)"
  have c5: "calls os5 = calls os @ [Call_SetLastError 0, Call_CreateProcessW b, Call_free,
                                     Call_free, Call_GetLastError]"
    by (simp add: os5_def b_def calls_CreateProcessW)
  obtain cs where cs: "calls (close_all hs os5) = calls os5 @ cs" "closes cs = hs"
    using close_all_log [of hs os5] by blast
  from assms have p': "p' = p\<lparr>info := pinfo\<rparr>"
    and os': "os' = close_all hs os5 \<or> os' = log_call Call_GetLastError (close_all hs os5)"
    by (auto simp: process_start_unfold Let_def pinfo_def os5_def hs_def split: if_splits)
  from os' have h: "handles os' = handles (close_all hs os5)"
    and c: "calls os' = calls os @ [Call_SetLastError 0, Call_CreateProcessW b, Call_free,
                                     Call_free, Call_GetLastError] @ cs
            \<or> calls os' = calls os @ [Call_SetLastError 0, Call_CreateProcessW b, Call_free,
                                     Call_free, Call_GetLastError] @ cs @ [Call_GetLastError]"
    by (auto simp: cs c5)
  from c have "closes (new_calls os os') = hs"
    by (auto simp: new_calls_def cs)
  with h p' show ?thesis
    by (simp add: handles_close_all hs_def)
qed

theorem process_start_closes_child_ends_witness:
  "process_start False example_translate (Process_Created 40 41) example_p 1 example_argv example_os
     = Returns (PROCESS_SUCCESS, example_started_p, example_started_os) \<and>
   handles example_started_os (child_stdin example_p) = None \<and>
   handles example_started_os (child_stdout example_p) = None \<and>
   handles example_started_os (child_stderr example_p) = None \<and>
   closes (new_calls example_os example_started_os) = [1, 4, 6, 8]"
  using process_start_closes_child_ends [OF example_started_eq] example_started_eq
  by (simp add: example_p_def example_started_p_def)

text \<open>
  Claim C9. In \<^verbatim>\<open>process_start\<close> the error of the creation call has priority: when the
  creation failed, with a code other than \<open>0\<close>, the routine returns the translation of
  that code, whatever the closes after it did; when the creation succeeded, the error
  returned is success if every close succeeded and the translation of the
  invalid-handle code, which a failed close leaves in the register, otherwise.
\<close>

theorem process_start_error_priority:
  assumes tr: "translator_ok translate"
    and ret: "process_start ndebug translate a p argc argv os = Returns (e, p', os')"
  shows "case a of
           Create_Fails code \<Rightarrow> code \<noteq> 0 \<longrightarrow> e = translate code
         | Process_Created pid tid \<Rightarrow>
             e = (if failed_closes (new_calls os os') = [] then PROCESS_SUCCESS
                  else translate ERROR_INVALID_HANDLE)"
proof (cases a)
  case (Create_Fails code)
  show ?thesis
  proof (cases "code = 0")
    case True
    with Create_Fails show ?thesis by simp
  next
    case False
    with tr have "translate code \<noteq> PROCESS_SUCCESS"
      by (auto simp: translator_ok_def)
    with ret Create_Fails show ?thesis
      by (simp add: process_start_unfold CreateProcessW_fails Let_def split: if_splits)
  qed
next
  case (Process_Created pid tid)
  from tr have t0: "translate 0 = PROCESS_SUCCESS"
    by (simp add: translator_ok_def)
  define pinfo where "pinfo = fst (CreateProcessW a CREATION_FLAGS (info p) (SetLastError 0 os))"
  define os5 where "os5 = log_call Call_GetLastError
     (free (free (snd (CreateProcessW a CREATION_FLAGS (info p) (SetLastError 0 os)))))"
  define hs where "hs = [child_stdin p, child_stdout p, child_stderr p, hThread pinfo]"
  have e5: "last_error os5 = 0"
    and c5: "calls os5 = calls os @ [Call_SetLastError 0, Call_CreateProcessW True, Call_free,
                                     Call_free, Call_GetLastError]"
    by (simp_all add: os5_def Process_Created CreateProcessW_created)
  obtain cs where cs: "calls (close_all hs os5) = calls os5 @ cs" "closes cs = hs"
      "last_error (close_all hs os5) =
         (if failed_closes cs = [] then last_error os5 else ERROR_INVALID_HANDLE)"
    using close_all_log [of hs os5] by blast
  from ret t0 have res: "e = translate (last_error (close_all hs os5))"
      "os' = log_call Call_GetLastError (close_all hs os5)"
    by (simp_all add: process_start_unfold Let_def Process_Created CreateProcessW_created
          os5_def hs_def pinfo_def split: if_splits)
  have "new_calls os os' = [Call_SetLastError 0, Call_CreateProcessW True, Call_free,
                            Call_free, Call_GetLastError] @ cs @ [Call_GetLastError]"
    by (rule new_calls_eq) (simp add: res cs c5)
  then have "failed_closes (new_calls os os') = failed_closes cs"
    by simp
  with res cs e5 t0 Process_Created show ?thesis
    by simp
qed

theorem process_start_error_priority_witness:
  "translator_ok example_translate \<and>
   process_start False example_translate (Create_Fails 2) example_p 1 example_argv example_os
     = Returns (PROCESS_UNKNOWN_ERROR 2, example_p, example_unstarted_os) \<and>
   (2 :: DWORD) \<noteq> 0 \<and> PROCESS_UNKNOWN_ERROR 2 = example_translate 2 \<and>
   failed_closes (new_calls example_os example_unstarted_os) = [NULL] \<and>
   process_start False example_translate (Process_Created 40 41) example_p 1 example_argv example_os
     = Returns (PROCESS_SUCCESS, example_started_p, example_started_os) \<and>
   failed_closes (new_calls example_os example_started_os) = []"
  using process_start_error_priority [OF example_translate_ok example_unstarted_eq]
    process_start_error_priority [OF example_translate_ok example_started_eq]
    example_translate_ok example_unstarted_eq example_started_eq
  by (simp add: new_calls_def example_os_def example_unstarted_os_def example_started_os_def
        example_translate_def)

text \<open>
  What \<^verbatim>\<open>process_start\<close> adds to the log when it returns: the register is cleared, the
  creation call is made, memory is freed twice, the register is read, and the closes
  follow.
\<close>

lemma process_start_log:
  assumes "process_start ndebug translate a p argc argv os = Returns (e, p', os')"
  shows "\<exists>cs. new_calls os os' =
           [Call_SetLastError 0,
            Call_CreateProcessW
              (case a of Process_Created pid tid \<Rightarrow> True | Create_Fails code \<Rightarrow> False),
            Call_free, Call_free, Call_GetLastError] @ cs"
proof -
  define pinfo where "pinfo = fst (CreateProcessW a CREATION_FLAGS (info p) (SetLastError 0 os))"
  define os5 where "os5 = log_call Call_GetLastError
     (free (free (snd (CreateProcessW a CREATION_FLAGS (info p) (SetLastError 0 os)))))"
  define hs where "hs = [child_stdin p, child_stdout p, child_stderr p, hThread pinfo]"
  define b where
    "b = (case a of Process_Created pid tid \<Rightarrow> True | Create_Fails code \<Rightarrow> False)"
  have c5: "calls os5 = calls os @ [Call_SetLastError 0, Call_CreateProcessW b, Call_free,
                                     Call_free, Call_GetLastError]"
    by (simp add: os5_def b_def calls_CreateProcessW)
  obtain cs where cs: "calls (close_all hs os5) = calls os5 @ cs"
    using close_all_log [of hs os5] by blast
  from assms
  have "os' = close_all hs os5 \<or> os' = log_call Call_GetLastError (close_all hs os5)"
    by (auto simp: process_start_unfold Let_def pinfo_def os5_def hs_def split: if_splits)
  then have "new_calls os os' = [Call_SetLastError 0, Call_CreateProcessW b, Call_free,
                                 Call_free, Call_GetLastError] @ cs
           \<or> new_calls os os' = [Call_SetLastError 0, Call_CreateProcessW b, Call_free,
                                 Call_free, Call_GetLastError] @ (cs @ [Call_GetLastError])"
    by (auto simp: new_calls_def cs c5)
  then show ?thesis
    unfolding b_def by blast
qed

lemma process_start_returns:
  assumes "ndebug \<or> start_asserts argc argv p"
  shows "\<exists>e p' os'. process_start ndebug translate a p argc argv os = Returns (e, p', os')"
  using assms by (auto simp: process_start_unfold Let_def)

text \<open>
  Claim C5, as amended. A second \<^verbatim>\<open>process_start\<close> on a handle that holds a process
  reference is caught by the assertions at the head of the routine and by nothing else:
  compiled with assertions the call stops at the failed assertion; compiled with
  \<^verbatim>\<open>NDEBUG\<close> it returns after having called \<^verbatim>\<open>CreateProcessW\<close> again.
\<close>

theorem second_start_only_asserted:
  assumes "hProcess (info p) \<noteq> NULL"
  shows "process_start False translate a p argc argv os = Assertion_Failed \<and>
         (\<exists>e p' os'. process_start True translate a p argc argv os = Returns (e, p', os') \<and>
            Call_CreateProcessW
              (case a of Process_Created pid tid \<Rightarrow> True | Create_Fails code \<Rightarrow> False)
              \<in> set (new_calls os os'))"
proof -
  from assms have "process_start False translate a p argc argv os = Assertion_Failed"
    by (simp add: process_start_def start_asserts_def)
  moreover
  obtain e p' os' where ret: "process_start True translate a p argc argv os = Returns (e, p', os')"
    using process_start_returns [of True argc argv p translate a os] by blast
  from process_start_log [OF ret]
  have "Call_CreateProcessW
          (case a of Process_Created pid tid \<Rightarrow> True | Create_Fails code \<Rightarrow> False)
          \<in> set (new_calls os os')"
    by auto
  ultimately show ?thesis
    using ret by blast
qed

theorem second_start_only_asserted_witness:
  "hProcess (info example_started_p) \<noteq> NULL \<and>
   process_start False example_translate (Process_Created 50 51) example_started_p 1 example_argv
     example_started_os = Assertion_Failed \<and>
   (\<exists>e p' os'. process_start True example_translate (Process_Created 50 51) example_started_p 1
                 example_argv example_started_os = Returns (e, p', os') \<and>
               Call_CreateProcessW True \<in> set (new_calls example_started_os os'))"
proof -
  have h: "hProcess (info example_started_p) \<noteq> NULL"
    by (simp add: example_started_p_def)
  from second_start_only_asserted
         [OF h, of example_translate "Process_Created 50 51" 1 example_argv example_started_os] h
  show ?thesis by simp
qed

text \<open>
  Claim C5, as stated, fails on the started handle of the concrete run. Compiled with
  assertions, the second start is a failed assertion and returns nothing. Compiled with
  \<^verbatim>\<open>NDEBUG\<close>, the second start is not refused: the platform creates process 50, the
  structure now refers to it, and the handle of process 40 stays open with nothing
  referring to it; the error returned is what closing the three stale child-side values
  left in the register.
\<close>

theorem second_start_counterexample:
  "hProcess (info example_started_p) \<noteq> NULL \<and>
   process_start False example_translate (Process_Created 50 51) example_started_p 1 example_argv
     example_started_os = Assertion_Failed \<and>
   process_start True example_translate (Process_Created 50 51) example_started_p 1 example_argv
     example_started_os
     = Returns (PROCESS_INVALID_HANDLE, example_restarted_p, example_restarted_os) \<and>
   dwProcessId (info example_restarted_p) = 50 \<and>
   handles example_restarted_os (hProcess (info example_restarted_p)) = Some (Process_Obj 50) \<and>
   handles example_restarted_os (hProcess (info example_started_p)) = Some (Process_Obj 40) \<and>
   failed_closes (new_calls example_started_os example_restarted_os) = [1, 4, 6]"
  using example_restarted_eq
  by (simp add: process_start_def start_asserts_def new_calls_def example_started_p_def
        example_restarted_p_def example_started_os_def example_restarted_os_def)

subsection \<open>Waiting and terminating\<close>

lemma documented_wait_running:
  assumes "handles os h = Some (Process_Obj pid)" and "\<not> exited os pid"
  shows "documented_wait env h 0 os = Wait_Result WAIT_TIMEOUT"
    and "ms \<noteq> 0 \<Longrightarrow> ms \<noteq> INFINITE \<Longrightarrow>
         documented_wait Child_Runs_On h ms os = Wait_Result WAIT_TIMEOUT"
    and "ms = INFINITE \<Longrightarrow> documented_wait Child_Runs_On h ms os = Wait_Blocks"
  using assms by (simp_all add: documented_wait_def)

text \<open>
  A successful \<^verbatim>\<open>process_start\<close> on a structure whose child-side fields are below the
  handle counter leaves a started handle whose child has not exited.
\<close>

lemma process_start_establishes_started:
  assumes ret: "process_start ndebug translate (Process_Created pid tid) p argc argv os
                  = Returns (e, p', os')"
    and pid: "pid \<noteq> 0" and pos: "0 < next_handle os"
    and below: "child_stdin p < next_handle os" "child_stdout p < next_handle os"
      "child_stderr p < next_handle os"
  shows "started p' os' \<and> \<not> exited os' pid"
proof -
  define os2 where
    "os2 = snd (CreateProcessW (Process_Created pid tid) CREATION_FLAGS (info p) (SetLastError 0 os))"
  define os5 where "os5 = log_call Call_GetLastError (free (free os2))"
  define hs where "hs = [child_stdin p, child_stdout p, child_stderr p, Suc (next_handle os)]"
  have ex: "\<And>hs s. exited (close_all hs s) = exited s"
    "\<And>hs s. group_of (close_all hs s) = group_of s"
  proof -
    fix hs :: "HANDLE list" and s
    show "exited (close_all hs s) = exited s"
      by (induction hs arbitrary: s)
         (simp_all add: close_all_Cons CloseHandle_def log_call_def split: option.splits)
    show "group_of (close_all hs s) = group_of s"
      by (induction hs arbitrary: s)
         (simp_all add: close_all_Cons CloseHandle_def log_call_def split: option.splits)
  qed
  have os2: "exited os2 pid = False" "group_of os2 pid = pid"
    by (simp_all add: os2_def CreateProcessW_def alloc_handle_def Let_def CREATION_FLAGS_def)
  from ret have p': "p' = p\<lparr>info := \<lparr>hProcess = next_handle os, hThread = Suc (next_handle os),
                                     dwProcessId = pid, dwThreadId = tid\<rparr>\<rparr>"
    and os': "os' = close_all hs os5 \<or> os' = log_call Call_GetLastError (close_all hs os5)"
    by (auto simp: process_start_unfold Let_def CreateProcessW_created os2_def os5_def hs_def
          split: if_splits)
  from below have notin: "next_handle os \<notin> set hs"
    by (auto simp: hs_def)
  have h5: "handles os5 (next_handle os) = Some (Process_Obj pid)"
    by (simp add: os5_def os2_def CreateProcessW_created)
  from os' have "handles os' (next_handle os) = Some (Process_Obj pid)"
    and "exited os' pid = False" and "group_of os' pid = pid"
    using notin h5 os2
    by (auto simp: handles_close_all ex os5_def)
  with p' pid pos show ?thesis
    by (simp add: started_def)
qed

text \<open>
  Claim C8. On a started handle whose child has not exited, \<^verbatim>\<open>process_wait\<close> with a
  timeout of \<open>0\<close> returns \<^verbatim>\<open>PROCESS_WAIT_TIMEOUT\<close>: the platform answers a zero-timeout
  wait on a running process at once with the timeout value, whether or not the child
  is about to exit, and the routine maps that value to the timeout outcome without
  reading the error register.
\<close>

theorem process_wait_zero_timeout:
  assumes "started p os" and "\<not> exited os (dwProcessId (info p))"
  shows "process_wait ndebug translate (documented_wait env (hProcess (info p)) 0 os) p 0 os =
           Returns (PROCESS_WAIT_TIMEOUT,
                    log_call (Call_WaitForSingleObject (hProcess (info p)) 0 WAIT_TIMEOUT)
                      (SetLastError 0 os))"
  using assms
  by (simp add: started_def documented_wait_running process_wait_def WaitForSingleObject_def)

theorem process_wait_zero_timeout_witness:
  "started example_started_p example_started_os \<and>
   \<not> exited example_started_os (dwProcessId (info example_started_p)) \<and>
   process_wait False example_translate
     (documented_wait Child_Exits (hProcess (info example_started_p)) 0 example_started_os)
     example_started_p 0 example_started_os =
   Returns (PROCESS_WAIT_TIMEOUT,
            log_call (Call_WaitForSingleObject (hProcess (info example_started_p)) 0 WAIT_TIMEOUT)
              (SetLastError 0 example_started_os))"
proof -
  have s: "started example_started_p example_started_os"
    by (simp add: started_def example_started_p_def example_started_os_def)
  have r: "\<not> exited example_started_os (dwProcessId (info example_started_p))"
    by (simp add: example_started_os_def)
  from process_wait_zero_timeout [OF s r] s r show ?thesis
    by simp
qed

text \<open>
  Claim C10. Whatever raw value the platform wait returns, \<^verbatim>\<open>process_wait\<close> returns:
  the timeout outcome for the timeout value, the translation of the register for the
  failure value, and success for every other value, the abandoned-wait value among
  them.
\<close>

theorem process_wait_result_mapping:
  assumes "wait_raw wa = Some r" and "ndebug \<or> hProcess (info p) \<noteq> NULL"
  shows "\<exists>os'. process_wait ndebug translate wa p ms os =
           Returns (if r = WAIT_TIMEOUT then PROCESS_WAIT_TIMEOUT
                    else if r = WAIT_FAILED then translate (last_error os')
                    else PROCESS_SUCCESS, os')"
  using assms
  by (cases wa)
     (auto simp: process_wait_def WaitForSingleObject_def GetLastError_def Let_def)

theorem process_wait_result_mapping_witness:
  "wait_raw (Wait_Result WAIT_ABANDONED) = Some WAIT_ABANDONED \<and>
   hProcess (info example_started_p) \<noteq> NULL \<and>
   (\<exists>os'. process_wait False example_translate (Wait_Result WAIT_ABANDONED) example_started_p 5
             example_started_os = Returns (PROCESS_SUCCESS, os'))"
proof -
  have r: "wait_raw (Wait_Result WAIT_ABANDONED) = Some WAIT_ABANDONED"
    by simp
  have h: "hProcess (info example_started_p) \<noteq> NULL"
    by (simp add: example_started_p_def)
  then have h': "False \<or> hProcess (info example_started_p) \<noteq> NULL"
    by simp
  from process_wait_result_mapping
         [OF r h', of example_translate 5 example_started_os] r h
  show ?thesis by simp
qed

text \<open>
  \<^verbatim>\<open>process_terminate\<close> in two pieces: when the event was sent, the routine is
  \<^verbatim>\<open>process_wait\<close> from the state the event call left; when it was not, the routine
  reads the register and returns.
\<close>

lemma process_terminate_sent:
  assumes "ndebug \<or> dwProcessId (info p) \<noteq> 0"
  shows "process_terminate ndebug translate Signal_Sent wa p ms os =
           process_wait ndebug translate wa p ms
             (log_call (Call_GenerateConsoleCtrlEvent CTRL_BREAK_EVENT (dwProcessId (info p)) True)
                (SetLastError 0 os))"
  using assms by (auto simp: process_terminate_def GenerateConsoleCtrlEvent_def)

lemma process_terminate_not_sent:
  assumes "ndebug \<or> dwProcessId (info p) \<noteq> 0"
  shows "process_terminate ndebug translate (Signal_Fails code) wa p ms os =
           Returns (translate code,
             log_call Call_GetLastError
               (log_call (Call_GenerateConsoleCtrlEvent CTRL_BREAK_EVENT (dwProcessId (info p)) False)
                  ((SetLastError 0 os)\<lparr>last_error := code\<rparr>)))"
  using assms by (auto simp: process_terminate_def GenerateConsoleCtrlEvent_def GetLastError_def)

text \<open>
  Claim C7, as amended. On a started handle \<^verbatim>\<open>process_terminate\<close> sends the break event
  to the group the child leads and then is \<^verbatim>\<open>process_wait\<close> with the given timeout. If
  the child runs on and the timeout is not the infinite one, the routine returns the
  timeout outcome, having made exactly the calls listed; with the infinite timeout it
  does not return. If the event cannot be sent, the routine returns the translation of
  the code that call left, and makes no wait.
\<close>

theorem process_terminate_signal_then_wait:
  assumes st: "started p os" and run: "\<not> exited os (dwProcessId (info p))"
  shows "group_of os (dwProcessId (info p)) = dwProcessId (info p) \<and>
         process_terminate ndebug translate Signal_Sent wa p ms os =
           process_wait ndebug translate wa p ms
             (log_call (Call_GenerateConsoleCtrlEvent CTRL_BREAK_EVENT (dwProcessId (info p)) True)
                (SetLastError 0 os)) \<and>
         (ms \<noteq> INFINITE \<longrightarrow>
            (\<exists>os'. process_terminate ndebug translate Signal_Sent
                     (documented_wait Child_Runs_On (hProcess (info p)) ms os) p ms os
                     = Returns (PROCESS_WAIT_TIMEOUT, os') \<and>
                   new_calls os os' =
                     [Call_SetLastError 0,
                      Call_GenerateConsoleCtrlEvent CTRL_BREAK_EVENT (dwProcessId (info p)) True,
                      Call_SetLastError 0,
                      Call_WaitForSingleObject (hProcess (info p)) ms WAIT_TIMEOUT])) \<and>
         process_terminate ndebug translate Signal_Sent
           (documented_wait Child_Runs_On (hProcess (info p)) INFINITE os) p INFINITE os
           = Never_Returns \<and>
         (\<exists>os'. process_terminate ndebug translate (Signal_Fails code) wa p ms os
                  = Returns (translate code, os') \<and>
                new_calls os os' =
                  [Call_SetLastError 0,
                   Call_GenerateConsoleCtrlEvent CTRL_BREAK_EVENT (dwProcessId (info p)) False,
                   Call_GetLastError])"
proof -
  from st have pid: "ndebug \<or> dwProcessId (info p) \<noteq> 0"
    and hp: "hProcess (info p) \<noteq> NULL"
    and obj: "handles os (hProcess (info p)) = Some (Process_Obj (dwProcessId (info p)))"
    and grp: "group_of os (dwProcessId (info p)) = dwProcessId (info p)"
    by (simp_all add: started_def)
  have sent: "\<exists>os'. process_terminate ndebug translate Signal_Sent
                  (documented_wait Child_Runs_On (hProcess (info p)) ms os) p ms os
                  = Returns (PROCESS_WAIT_TIMEOUT, os') \<and>
                new_calls os os' =
                  [Call_SetLastError 0,
                   Call_GenerateConsoleCtrlEvent CTRL_BREAK_EVENT (dwProcessId (info p)) True,
                   Call_SetLastError 0,
                   Call_WaitForSingleObject (hProcess (info p)) ms WAIT_TIMEOUT]"
    if fin: "ms \<noteq> INFINITE"
  proof -
    from obj run fin
    have doc: "documented_wait Child_Runs_On (hProcess (info p)) ms os = Wait_Result WAIT_TIMEOUT"
      by (cases "ms = 0") (simp_all add: documented_wait_running)
    from hp show ?thesis
      by (simp add: process_terminate_sent [OF pid] doc process_wait_def WaitForSingleObject_def
            new_calls_def)
  qed
  from obj run
  have "documented_wait Child_Runs_On (hProcess (info p)) INFINITE os = Wait_Blocks"
    by (simp add: documented_wait_running)
  with hp have blocks: "process_terminate ndebug translate Signal_Sent
           (documented_wait Child_Runs_On (hProcess (info p)) INFINITE os) p INFINITE os
           = Never_Returns"
    by (simp add: process_terminate_sent [OF pid] process_wait_def WaitForSingleObject_def)
  have failed: "\<exists>os'. process_terminate ndebug translate (Signal_Fails code) wa p ms os
                  = Returns (translate code, os') \<and>
                new_calls os os' =
                  [Call_SetLastError 0,
                   Call_GenerateConsoleCtrlEvent CTRL_BREAK_EVENT (dwProcessId (info p)) False,
                   Call_GetLastError]"
    by (simp add: process_terminate_not_sent [OF pid] new_calls_def log_call_def SetLastError_def)
  from grp process_terminate_sent [OF pid] sent blocks failed show ?thesis
    by blast
qed

theorem process_terminate_signal_then_wait_witness:
  "started example_started_p example_started_os \<and>
   \<not> exited example_started_os (dwProcessId (info example_started_p)) \<and>
   (1000 :: DWORD) \<noteq> INFINITE \<and>
   (\<exists>os'. process_terminate False example_translate Signal_Sent
            (documented_wait Child_Runs_On (hProcess (info example_started_p)) 1000
               example_started_os)
            example_started_p 1000 example_started_os
            = Returns (PROCESS_WAIT_TIMEOUT, os') \<and>
          new_calls example_started_os os' =
            [Call_SetLastError 0, Call_GenerateConsoleCtrlEvent CTRL_BREAK_EVENT 40 True,
             Call_SetLastError 0, Call_WaitForSingleObject 7 1000 WAIT_TIMEOUT]) \<and>
   (\<exists>os'. process_terminate False example_translate (Signal_Fails 87) Wait_Blocks
            example_started_p 1000 example_started_os
            = Returns (PROCESS_UNKNOWN_ERROR 87, os') \<and>
          new_calls example_started_os os' =
            [Call_SetLastError 0, Call_GenerateConsoleCtrlEvent CTRL_BREAK_EVENT 40 False,
             Call_GetLastError])"
proof -
  have s: "started example_started_p example_started_os"
    by (simp add: started_def example_started_p_def example_started_os_def)
  have r: "\<not> exited example_started_os (dwProcessId (info example_started_p))"
    by (simp add: example_started_os_def)
  have f: "(1000 :: DWORD) \<noteq> INFINITE"
    by simp
  have t: "example_translate 87 = PROCESS_UNKNOWN_ERROR 87"
    by (simp add: example_translate_def)
  have i: "dwProcessId (info example_started_p) = 40" "hProcess (info example_started_p) = 7"
    by (simp_all add: example_started_p_def)
  from process_terminate_signal_then_wait
         [OF s r, of False example_translate Wait_Blocks 1000 87] s r f
  show ?thesis
    by (simp add: t i)
qed

text \<open>
  Claim C7, as stated, fails for the infinite timeout: the handle is started, the child
  has not exited and does not exit, the event is sent, and the wait that follows never
  returns, so neither does \<^verbatim>\<open>process_terminate\<close>.
\<close>

theorem process_terminate_infinite_counterexample:
  "started example_started_p example_started_os \<and>
   \<not> exited example_started_os (dwProcessId (info example_started_p)) \<and>
   documented_wait Child_Runs_On (hProcess (info example_started_p)) INFINITE example_started_os
     = Wait_Blocks \<and>
   process_terminate False example_translate Signal_Sent Wait_Blocks example_started_p INFINITE
     example_started_os = Never_Returns"
  by (simp add: started_def documented_wait_def process_terminate_def GenerateConsoleCtrlEvent_def
        process_wait_def WaitForSingleObject_def example_started_p_def example_started_os_def)

subsection \<open>Releasing the handle\<close>

text \<open>
  \<^verbatim>\<open>process_free\<close> in one piece: a run of closes over the fields that are not
  \<^verbatim>\<open>NULL\<close>, among the three parent-side ends and the process handle, then one read of
  the register.
\<close>

lemma process_free_unfold:
  "process_free translate p os =
     (let os4 = close_all (free_closes p) (SetLastError 0 os)
      in (translate (last_error os4), log_call Call_GetLastError os4))"
  by (simp add: process_free_def Let_def GetLastError_def close_all_def free_closes_def)

text \<open>A run of closes over distinct open handles: no close fails.\<close>

lemma close_all_open:
  assumes "distinct hs" and "\<forall>h\<in>set hs. handles os h \<noteq> None"
  shows "failed_closes (new_calls os (close_all hs os)) = []"
  using assms
proof (induction hs arbitrary: os)
  case Nil
  show ?case by (simp add: new_calls_def)
next
  case (Cons h hs)
  let ?os1 = "CloseHandle h os"
  from Cons.prems have d: "distinct hs" and "h \<notin> set hs"
    and o: "handles os h \<noteq> None" and "\<forall>k\<in>set hs. handles os k \<noteq> None"
    by simp_all
  then have "\<forall>k\<in>set hs. handles ?os1 k \<noteq> None"
    by (auto simp: handles_CloseHandle)
  with d have ih: "failed_closes (new_calls ?os1 (close_all hs ?os1)) = []"
    by (rule Cons.IH)
  obtain cs where cs: "calls (close_all hs ?os1) = calls ?os1 @ cs"
    using close_all_log [of hs ?os1] by blast
  from cs ih have "failed_closes cs = []"
    by (simp add: new_calls_def)
  moreover from cs o have "new_calls os (close_all (h # hs) os) = Call_CloseHandle h True # cs"
    by (simp add: new_calls_def close_all_Cons calls_CloseHandle)
  ultimately show ?case
    by simp
qed

text \<open>A run of closes over handles none of which is open: every close fails.\<close>

lemma close_all_closed:
  assumes "\<forall>h\<in>set hs. handles os h = None"
  shows "failed_closes (new_calls os (close_all hs os)) = hs"
  using assms
proof (induction hs arbitrary: os)
  case Nil
  show ?case by (simp add: new_calls_def)
next
  case (Cons h hs)
  let ?os1 = "CloseHandle h os"
  from Cons.prems have c: "handles os h = None" and "\<forall>k\<in>set hs. handles os k = None"
    by simp_all
  then have "\<forall>k\<in>set hs. handles ?os1 k = None"
    by (simp add: handles_CloseHandle)
  then have ih: "failed_closes (new_calls ?os1 (close_all hs ?os1)) = hs"
    by (rule Cons.IH)
  obtain cs where cs: "calls (close_all hs ?os1) = calls ?os1 @ cs"
    using close_all_log [of hs ?os1] by blast
  from cs ih have "failed_closes cs = hs"
    by (simp add: new_calls_def)
  moreover from cs c have "new_calls os (close_all (h # hs) os) = Call_CloseHandle h False # cs"
    by (simp add: new_calls_def close_all_Cons calls_CloseHandle)
  ultimately show ?case
    by simp
qed

text \<open>
  After \<^verbatim>\<open>process_init\<close>, whatever the platform answered: each parent-side field is
  \<^verbatim>\<open>NULL\<close> or an open handle, those that are not \<^verbatim>\<open>NULL\<close> are pairwise distinct, and
  there is no process handle.
\<close>

lemma process_init_parent_ends:
  assumes wf: "os_wf os" and init: "process_init translate a1 a2 a3 p0 os = (e, p, os1)"
  shows "distinct (free_closes p) \<and> (\<forall>h \<in> set (free_closes p). handles os1 h \<noteq> None) \<and>
         hProcess (info p) = NULL"
proof -
  from wf have pos: "0 < next_handle os"
    by (simp add: os_wf_def)
  note defs = process_init_def pipe_init_def platform_defs Let_def free_closes_def
  show ?thesis
  proof (cases a1)
    case Pipe_Created
    show ?thesis
    proof (cases a2)
      case a2: Pipe_Created
      from init pos Pipe_Created a2 show ?thesis
        by (cases a3) (clarsimp simp: defs)+
    next
      case (Pipe_Fails_Unopened code)
      with init pos Pipe_Created show ?thesis
        by (clarsimp simp: defs)
    next
      case (Pipe_Fails_Opened code)
      with init pos Pipe_Created show ?thesis
        by (clarsimp simp: defs)
    qed
  next
    case (Pipe_Fails_Unopened code)
    with init pos show ?thesis
      by (clarsimp simp: defs)
  next
    case (Pipe_Fails_Opened code)
    with init pos show ?thesis
      by (clarsimp simp: defs)
  qed
qed

text \<open>
  Claim C2, as amended. One \<^verbatim>\<open>process_free\<close> on a handle that went through
  \<^verbatim>\<open>process_init\<close>, completely or in part, and was never started: every close it makes
  succeeds, no handle is closed twice, the handles closed are the parent-side ends that
  are not \<^verbatim>\<open>NULL\<close>, and the routine returns success, also when there was nothing to
  close. A second \<^verbatim>\<open>process_free\<close> directly after the first passes the same handles to
  \<^verbatim>\<open>CloseHandle\<close> again, every one of these closes fails, and unless there was none the
  routine returns the translation of the invalid-handle code.
\<close>

theorem process_free_once_after_init:
  assumes wf: "os_wf os" and tr: "translator_ok translate"
    and init: "process_init translate a1 a2 a3 p0 os = (e, p, os1)"
    and rel: "process_free translate p os1 = (e', os2)"
    and again: "process_free translate p os2 = (e'', os3)"
  shows "e' = PROCESS_SUCCESS \<and> failed_closes (new_calls os1 os2) = [] \<and>
         distinct (closes (new_calls os1 os2)) \<and>
         closes (new_calls os1 os2) = filter (\<lambda>h. h \<noteq> NULL) [stdin p, stdout p, stderr p] \<and>
         closes (new_calls os2 os3) = closes (new_calls os1 os2) \<and>
         failed_closes (new_calls os2 os3) = closes (new_calls os1 os2) \<and>
         e'' = (if closes (new_calls os1 os2) = [] then PROCESS_SUCCESS
                else translate ERROR_INVALID_HANDLE)"
proof -
  define hs where "hs = free_closes p"
  define os0 where "os0 = SetLastError 0 os1"
  define os0' where "os0' = SetLastError 0 os2"
  from process_init_parent_ends [OF wf init]
  have d: "distinct hs" and o: "\<forall>h\<in>set hs. handles os1 h \<noteq> None"
    and np: "hProcess (info p) = NULL"
    by (simp_all add: hs_def)
  from o have o0: "\<forall>h\<in>set hs. handles os0 h \<noteq> None"
    by (simp add: os0_def)
  from tr have t0: "translate 0 = PROCESS_SUCCESS"
    by (simp add: translator_ok_def)
  obtain cs where cs: "calls (close_all hs os0) = calls os0 @ cs" "closes cs = hs"
      "last_error (close_all hs os0) =
         (if failed_closes cs = [] then last_error os0 else ERROR_INVALID_HANDLE)"
    using close_all_log [of hs os0] by blast
  from close_all_open [OF d o0] cs have f: "failed_closes cs = []"
    by (simp add: new_calls_def)
  from rel have e': "e' = translate (last_error (close_all hs os0))"
    and os2: "os2 = log_call Call_GetLastError (close_all hs os0)"
    by (auto simp: process_free_unfold Let_def hs_def os0_def)
  have n: "new_calls os1 os2 = [Call_SetLastError 0] @ cs @ [Call_GetLastError]"
    by (rule new_calls_eq) (simp add: os2 cs, simp add: os0_def)
  have first: "e' = PROCESS_SUCCESS" "failed_closes (new_calls os1 os2) = []"
    "closes (new_calls os1 os2) = hs"
    using e' cs f t0 n by (simp_all add: os0_def)
  have c0: "\<forall>h\<in>set hs. handles os0' h = None"
    by (simp add: os0'_def os2 handles_close_all)
  obtain cs' where cs': "calls (close_all hs os0') = calls os0' @ cs'" "closes cs' = hs"
      "last_error (close_all hs os0') =
         (if failed_closes cs' = [] then last_error os0' else ERROR_INVALID_HANDLE)"
    using close_all_log [of hs os0'] by blast
  from close_all_closed [OF c0] cs' have f': "failed_closes cs' = hs"
    by (simp add: new_calls_def)
  from again have e'': "e'' = translate (last_error (close_all hs os0'))"
    and os3: "os3 = log_call Call_GetLastError (close_all hs os0')"
    by (auto simp: process_free_unfold Let_def hs_def os0'_def)
  have n': "new_calls os2 os3 = [Call_SetLastError 0] @ cs' @ [Call_GetLastError]"
    by (rule new_calls_eq) (simp add: os3 cs', simp add: os0'_def)
  have second: "closes (new_calls os2 os3) = hs" "failed_closes (new_calls os2 os3) = hs"
    "e'' = (if hs = [] then PROCESS_SUCCESS else translate ERROR_INVALID_HANDLE)"
    using e'' cs' f' t0 n' by (simp_all add: os0'_def)
  from np have "hs = filter (\<lambda>h. h \<noteq> NULL) [stdin p, stdout p, stderr p]"
    by (simp add: hs_def free_closes_def)
  with first second d show ?thesis
    by simp
qed

theorem process_free_once_after_init_witness:
  "os_wf example_boot \<and> translator_ok example_translate \<and>
   process_init example_translate Pipe_Created Pipe_Created Pipe_Created example_blank example_boot
     = (PROCESS_SUCCESS, example_p, example_os) \<and>
   process_free example_translate example_p example_os = (PROCESS_SUCCESS, example_freed_os) \<and>
   process_free example_translate example_p example_freed_os
     = (PROCESS_INVALID_HANDLE, example_freed_twice_os) \<and>
   failed_closes (new_calls example_os example_freed_os) = [] \<and>
   closes (new_calls example_os example_freed_os) = [2, 3, 5] \<and>
   failed_closes (new_calls example_freed_os example_freed_twice_os) = [2, 3, 5]"
  using process_free_once_after_init
          [OF example_os_wf example_translate_ok example_ready_eq example_freed_eq
              example_freed_twice_eq]
    example_os_wf example_translate_ok example_ready_eq example_freed_eq example_freed_twice_eq
  by (simp add: example_p_def)

text \<open>
  Claim C2, as stated, fails when \<^verbatim>\<open>process_free\<close> is called twice in a row on the
  initialised handle of the concrete run: the first call closes handles 2, 3 and 5 and
  returns success; the second call passes the same three values to \<^verbatim>\<open>CloseHandle\<close>
  again, every one of these closes fails, and the routine returns the error they left,
  although there was nothing left to close.
\<close>

theorem process_free_twice_counterexample:
  "process_free example_translate example_p example_os = (PROCESS_SUCCESS, example_freed_os) \<and>
   process_free example_translate example_p example_freed_os
     = (PROCESS_INVALID_HANDLE, example_freed_twice_os) \<and>
   closes (new_calls example_os example_freed_os) = [2, 3, 5] \<and>
   closes (new_calls example_freed_os example_freed_twice_os) = [2, 3, 5] \<and>
   failed_closes (new_calls example_freed_os example_freed_twice_os) = [2, 3, 5]"
  using example_freed_eq example_freed_twice_eq
  by (simp add: new_calls_def example_os_def example_freed_os_def example_freed_twice_os_def)

text \<open>
  Claim C3 fails on the code: after a successful \<^verbatim>\<open>process_init\<close> and no
  \<^verbatim>\<open>process_start\<close>, \<^verbatim>\<open>process_free\<close> closes the three parent-side ends and nothing
  else, and the three child-side ends are still open pipe ends in the state it returns.
\<close>

theorem process_free_leaves_child_ends_open:
  assumes wf: "os_wf os"
    and init: "process_init translate Pipe_Created Pipe_Created Pipe_Created p0 os = (e, p, os1)"
    and rel: "process_free translate p os1 = (e', os2)"
  shows "handles os2 (child_stdin p) = Some (Pipe_End True) \<and>
         handles os2 (child_stdout p) = Some (Pipe_End True) \<and>
         handles os2 (child_stderr p) = Some (Pipe_End True) \<and>
         closes (new_calls os1 os2) = [stdin p, stdout p, stderr p]"
proof -
  from wf have pos: "0 < next_handle os"
    by (simp add: os_wf_def)
  define hs where "hs = [stdin p, stdout p, stderr p]"
  define os0 where "os0 = SetLastError 0 os1"
  from init pos have hs: "hs = [Suc (next_handle os), next_handle os + 2, next_handle os + 4]"
    and ch: "child_stdin p = next_handle os" "child_stdout p = next_handle os + 3"
      "child_stderr p = next_handle os + 5"
    and np: "hProcess (info p) = NULL"
    and h1: "handles os1 (next_handle os) = Some (Pipe_End True)"
      "handles os1 (next_handle os + 3) = Some (Pipe_End True)"
      "handles os1 (next_handle os + 5) = Some (Pipe_End True)"
    by (auto simp: process_init_created hs_def)
  from hs pos np have f: "free_closes p = hs"
    by (simp add: hs_def free_closes_def)
  from rel have os2: "os2 = log_call Call_GetLastError (close_all hs os0)"
    by (auto simp: process_free_unfold Let_def f os0_def)
  obtain cs where cs: "calls (close_all hs os0) = calls os0 @ cs" "closes cs = hs"
    using close_all_log [of hs os0] by blast
  have n: "new_calls os1 os2 = [Call_SetLastError 0] @ cs @ [Call_GetLastError]"
    by (rule new_calls_eq) (simp add: os2 cs, simp add: os0_def)
  have "handles os2 (next_handle os) = Some (Pipe_End True)"
    "handles os2 (next_handle os + 3) = Some (Pipe_End True)"
    "handles os2 (next_handle os + 5) = Some (Pipe_End True)"
    by (simp_all add: os2 handles_close_all hs os0_def h1)
  with ch n cs show ?thesis
    by (simp add: hs_def)
qed

theorem process_free_leaves_child_ends_open_witness:
  "os_wf example_boot \<and>
   process_init example_translate Pipe_Created Pipe_Created Pipe_Created example_blank example_boot
     = (PROCESS_SUCCESS, example_p, example_os) \<and>
   process_free example_translate example_p example_os = (PROCESS_SUCCESS, example_freed_os) \<and>
   handles example_freed_os (child_stdin example_p) = Some (Pipe_End True) \<and>
   handles example_freed_os (child_stdout example_p) = Some (Pipe_End True) \<and>
   handles example_freed_os (child_stderr example_p) = Some (Pipe_End True) \<and>
   closes (new_calls example_os example_freed_os) = [2, 3, 5]"
  using process_free_leaves_child_ends_open [OF example_os_wf example_ready_eq example_freed_eq]
    example_os_wf example_ready_eq example_freed_eq
  by (simp add: example_p_def)

subsection \<open>Where the error register is read\<close>

lemma process_init_observed:
  assumes "process_init translate a1 a2 a3 p os = (e, p', os')"
  shows "observed_at_once (new_calls os os') \<and> e = translate (last_error os')"
  using assms
  by (cases a1; cases a2; cases a3)
     (auto simp: process_init_def pipe_init_def alloc_handle_def GetLastError_def Let_def
        new_calls_def)

lemma process_wait_observed:
  assumes "process_wait ndebug translate wa p ms os = Returns (e, os')"
  shows "observed_at_once (new_calls os os') \<and>
         (\<forall>code. wa = Wait_Fails code \<longrightarrow> e = translate code)"
  using assms
  by (cases wa)
     (auto simp: process_wait_def WaitForSingleObject_def GetLastError_def Let_def
        new_calls_def split: if_splits)

lemma process_terminate_observed:
  assumes "process_terminate ndebug translate sa wa p ms os = Returns (e, os')"
  shows "observed_at_once (new_calls os os') \<and>
         (\<forall>code. sa = Signal_Fails code \<longrightarrow> e = translate code)"
  using assms
  by (cases sa; cases wa)
     (auto simp: process_terminate_def GenerateConsoleCtrlEvent_def process_wait_def
        WaitForSingleObject_def GetLastError_def Let_def new_calls_def split: if_splits)

lemma process_start_failed_creation:
  assumes "process_start ndebug translate (Create_Fails code) p argc argv os = Returns (e, p', os')"
    and "translate code \<noteq> PROCESS_SUCCESS"
  shows "e = translate code \<and>
         (\<exists>cs. new_calls os os' =
                 [Call_SetLastError 0, Call_CreateProcessW False, Call_free, Call_free,
                  Call_GetLastError] @ cs \<and>
               closes cs = [child_stdin p, child_stdout p, child_stderr p, hThread (info p)] \<and>
               Call_GetLastError \<notin> set cs)"
proof -
  define os5 where "os5 = log_call Call_GetLastError (free (free
     (snd (CreateProcessW (Create_Fails code) CREATION_FLAGS (info p) (SetLastError 0 os)))))"
  define hs where "hs = [child_stdin p, child_stdout p, child_stderr p, hThread (info p)]"
  have c5: "calls os5 = calls os @ [Call_SetLastError 0, Call_CreateProcessW False, Call_free,
                                     Call_free, Call_GetLastError]"
    by (simp add: os5_def CreateProcessW_fails)
  obtain cs where cs: "calls (close_all hs os5) = calls os5 @ cs" "closes cs = hs"
      "Call_GetLastError \<notin> set cs"
    using close_all_log [of hs os5] by blast
  from assms have res: "e = translate code" "os' = close_all hs os5"
    by (auto simp: process_start_unfold Let_def CreateProcessW_fails os5_def hs_def
          split: if_splits)
  have "new_calls os os' = [Call_SetLastError 0, Call_CreateProcessW False, Call_free,
                            Call_free, Call_GetLastError] @ cs"
    by (rule new_calls_eq) (simp add: res cs c5)
  with res cs show ?thesis
    by (simp add: hs_def)
qed

text \<open>
  Claim C6, as amended. \<^verbatim>\<open>process_init\<close>, \<^verbatim>\<open>process_wait\<close> and \<^verbatim>\<open>process_terminate\<close>
  read the register directly after the call that failed, and return the translation of
  what they read. A \<^verbatim>\<open>process_start\<close> whose creation call failed returns the
  translation of the code that call left, but reads it only after the two \<^verbatim>\<open>free\<close>
  calls that follow the creation call, and does not read the register again after the
  four closes that come next.
\<close>

theorem error_read_after_batch:
  "(process_init translate ax ay az p os = (ei, pi, osi) \<longrightarrow>
      observed_at_once (new_calls os osi) \<and> ei = translate (last_error osi)) \<and>
   (process_wait ndebug translate wa pw ms osw = Returns (ew, osw') \<longrightarrow>
      observed_at_once (new_calls osw osw') \<and>
      (\<forall>c. wa = Wait_Fails c \<longrightarrow> ew = translate c)) \<and>
   (process_terminate ndebug translate sa wt pt mt ost = Returns (et, ost') \<longrightarrow>
      observed_at_once (new_calls ost ost') \<and>
      (\<forall>c. sa = Signal_Fails c \<longrightarrow> et = translate c)) \<and>
   (process_start ndebug translate (Create_Fails code) ps argc argv oss = Returns (es, ps', oss') \<and>
      translate code \<noteq> PROCESS_SUCCESS \<longrightarrow>
      es = translate code \<and>
      (\<exists>cs. new_calls oss oss' =
              [Call_SetLastError 0, Call_CreateProcessW False, Call_free, Call_free,
               Call_GetLastError] @ cs \<and>
            closes cs = [child_stdin ps, child_stdout ps, child_stderr ps, hThread (info ps)] \<and>
            Call_GetLastError \<notin> set cs))"
proof -
  have "process_init translate ax ay az p os = (ei, pi, osi) \<longrightarrow>
          observed_at_once (new_calls os osi) \<and> ei = translate (last_error osi)"
    by (rule impI) (rule process_init_observed)
  moreover
  have "process_wait ndebug translate wa pw ms osw = Returns (ew, osw') \<longrightarrow>
          observed_at_once (new_calls osw osw') \<and>
          (\<forall>c. wa = Wait_Fails c \<longrightarrow> ew = translate c)"
    by (rule impI) (rule process_wait_observed)
  moreover
  have "process_terminate ndebug translate sa wt pt mt ost = Returns (et, ost') \<longrightarrow>
          observed_at_once (new_calls ost ost') \<and>
          (\<forall>c. sa = Signal_Fails c \<longrightarrow> et = translate c)"
    by (rule impI) (rule process_terminate_observed)
  moreover
  have "process_start ndebug translate (Create_Fails code) ps argc argv oss
            = Returns (es, ps', oss') \<and> translate code \<noteq> PROCESS_SUCCESS \<longrightarrow>
        es = translate code \<and>
        (\<exists>cs. new_calls oss oss' =
                [Call_SetLastError 0, Call_CreateProcessW False, Call_free, Call_free,
                 Call_GetLastError] @ cs \<and>
              closes cs = [child_stdin ps, child_stdout ps, child_stderr ps, hThread (info ps)] \<and>
              Call_GetLastError \<notin> set cs)"
    by (rule impI, erule conjE) (rule process_start_failed_creation)
  ultimately show ?thesis
    by (intro conjI)
qed

theorem error_read_after_batch_witness:
  "process_init example_translate Pipe_Created Pipe_Created Pipe_Created example_blank example_boot
     = (PROCESS_SUCCESS, example_p, example_os) \<and>
   observed_at_once (new_calls example_boot example_os) \<and>
   (\<exists>osw'. process_wait False example_translate (Wait_Fails 5) example_started_p 1000
            example_started_os = Returns (PROCESS_UNKNOWN_ERROR 5, osw') \<and>
          observed_at_once (new_calls example_started_os osw')) \<and>
   (\<exists>ost'. process_terminate False example_translate (Signal_Fails 87) Wait_Blocks
            example_started_p 1000 example_started_os = Returns (PROCESS_UNKNOWN_ERROR 87, ost') \<and>
          observed_at_once (new_calls example_started_os ost')) \<and>
   process_start False example_translate (Create_Fails 2) example_p 1 example_argv example_os
     = Returns (PROCESS_UNKNOWN_ERROR 2, example_p, example_unstarted_os) \<and>
   example_translate 2 \<noteq> PROCESS_SUCCESS \<and>
   (\<exists>cs. new_calls example_os example_unstarted_os =
           [Call_SetLastError 0, Call_CreateProcessW False, Call_free, Call_free,
            Call_GetLastError] @ cs \<and>
         closes cs = [1, 4, 6, NULL] \<and> Call_GetLastError \<notin> set cs)"
proof -
  obtain osw' where w: "process_wait False example_translate (Wait_Fails 5) example_started_p 1000
                         example_started_os = Returns (PROCESS_UNKNOWN_ERROR 5, osw')"
    by (simp add: process_wait_def WaitForSingleObject_def GetLastError_def
          example_translate_def example_started_p_def)
  obtain ost' where t: "process_terminate False example_translate (Signal_Fails 87) Wait_Blocks
                         example_started_p 1000 example_started_os
                         = Returns (PROCESS_UNKNOWN_ERROR 87, ost')"
    by (simp add: process_terminate_def GenerateConsoleCtrlEvent_def GetLastError_def
          example_translate_def example_started_p_def)
  have n: "example_translate 2 \<noteq> PROCESS_SUCCESS"
    by (simp add: example_translate_def)
  have c: "child_stdin example_p = 1" "child_stdout example_p = 4" "child_stderr example_p = 6"
    "hThread (info example_p) = NULL"
    by (simp_all add: example_p_def)
  from error_read_after_batch
         [where translate = example_translate and ndebug = False
            and ax = Pipe_Created and ay = Pipe_Created and az = Pipe_Created
            and p = example_blank and os = example_boot
            and ei = PROCESS_SUCCESS and pi = example_p and osi = example_os
            and wa = "Wait_Fails 5" and pw = example_started_p and ms = 1000
            and osw = example_started_os and ew = "PROCESS_UNKNOWN_ERROR 5" and osw' = osw'
            and sa = "Signal_Fails 87" and wt = Wait_Blocks and pt = example_started_p
            and mt = 1000 and ost = example_started_os
            and et = "PROCESS_UNKNOWN_ERROR 87" and ost' = ost'
            and code = 2 and ps = example_p and argc = 1 and argv = example_argv
            and oss = example_os and es = "PROCESS_UNKNOWN_ERROR 2" and ps' = example_p
            and oss' = example_unstarted_os]
       example_ready_eq w t example_unstarted_eq n
  show ?thesis
    by (auto simp: c)
qed

text \<open>
  Claim C6, as stated, fails on the initialised handle of the concrete run when the
  creation call fails with code 2. Two \<^verbatim>\<open>free\<close> calls stand between the failed
  creation call and the read of the register. The close of the \<^verbatim>\<open>NULL\<close> thread handle
  then fails and leaves the invalid-handle code in the register, which nothing reads:
  the routine returns the translation of code 2, not of that code.
\<close>

theorem error_observed_at_once_counterexample:
  "process_start False example_translate (Create_Fails 2) example_p 1 example_argv example_os
     = Returns (PROCESS_UNKNOWN_ERROR 2, example_p, example_unstarted_os) \<and>
   new_calls example_os example_unstarted_os =
     [Call_SetLastError 0, Call_CreateProcessW False, Call_free, Call_free, Call_GetLastError,
      Call_CloseHandle 1 True, Call_CloseHandle 4 True, Call_CloseHandle 6 True,
      Call_CloseHandle NULL False] \<and>
   \<not> observed_at_once (new_calls example_os example_unstarted_os) \<and>
   last_error example_unstarted_os = ERROR_INVALID_HANDLE \<and>
   PROCESS_UNKNOWN_ERROR 2 \<noteq> example_translate (last_error example_unstarted_os)"
  using example_unstarted_eq
  by (simp add: new_calls_def example_os_def example_unstarted_os_def example_translate_def)

end
